theory Spec2Isabelle
  imports Complex_Main "HOL-Library.Word"
begin

section \<open>Values of the host language\<close>

text \<open>
  A string of the program is a \<^typ>\<open>string\<close>: the UTF-8 bytes of the source literal, the
  ASCII part written as it stands. A thrown value is an object with the three properties
  the program reads from it in \<^verbatim>\<open>catch\<close> blocks: \<^verbatim>\<open>message\<close>, the result of
  \<^verbatim>\<open>toString()\<close> and \<^verbatim>\<open>status\<close>.
\<close>

record thrown =
  message :: "string option"
  toString :: string
  status :: "nat option"

text \<open>\<^verbatim>\<open>new Error(msg)\<close>: \<^verbatim>\<open>toString()\<close> is the name, a colon and the message.\<close>

definition Error :: "string \<Rightarrow> thrown" where
  "Error msg =
     \<lparr>message = Some msg,
      toString = (if msg = [] then ''Error'' else ''Error: '' @ msg),
      status = None\<rparr>"

text \<open>An exception object of the platform, by its name and its message.\<close>

definition DOMException :: "string \<Rightarrow> string \<Rightarrow> thrown" where
  "DOMException name msg =
     \<lparr>message = Some msg,
      toString = (if msg = [] then name else name @ '': '' @ msg),
      status = None\<rparr>"

text \<open>
  A number of the program, as far as the audio code needs it: a finite value, the
  quotient of a division by zero, or not-a-number.
\<close>

datatype js_number = Num real | Infinity | NaN

type_synonym byte = "8 word"

section \<open>utils/audioUtils.ts\<close>

subsection \<open>decodeBase64\<close>

text \<open>
  \<^verbatim>\<open>atob\<close> belongs to the platform: it is a parameter, giving the code units of the
  binary string or raising. The loop stores \<^verbatim>\<open>charCodeAt(i)\<close> into a
  \<^verbatim>\<open>Uint8Array\<close>, which keeps the value modulo 256.
\<close>

definition decodeBase64 :: "(string \<Rightarrow> thrown + nat list) \<Rightarrow> string \<Rightarrow> thrown + byte list" where
  "decodeBase64 atob base64 =
     (case atob base64 of
        Inl e \<Rightarrow> Inl e
      | Inr binaryString \<Rightarrow> Inr (map (\<lambda>c. (of_nat c :: byte)) binaryString))"

subsection \<open>decodeAudioData\<close>

text \<open>
  An \<^verbatim>\<open>AudioBuffer\<close> is its sample rate and one \<^verbatim>\<open>Float32Array\<close> per channel.
  A 16-bit integer divided by \<open>32768\<close> is a binary fraction of at most 16 significant
  bits, which a 32-bit float holds exactly, so a stored sample is the quotient itself.
\<close>

record AudioBuffer =
  sampleRate :: nat
  channelData :: "js_number list list"

text \<open>
  The \<^verbatim>\<open>AudioContext\<close>: its state and its \<^verbatim>\<open>createBuffer\<close>, which the platform
  owns (it may refuse its arguments), taking the channel count, the frame count as the
  number the program computed, and the sample rate.
\<close>

datatype ctx_state = Suspended | Running | Closed

record AudioContext =
  ctx_state :: ctx_state
  createBuffer :: "nat \<Rightarrow> js_number \<Rightarrow> nat \<Rightarrow> thrown + AudioBuffer"

text \<open>
  \<^verbatim>\<open>new Int16Array(data.buffer)\<close>: a view of the bytes as 16-bit signed integers, two
  bytes each, the low byte first. The constructor raises a \<^verbatim>\<open>RangeError\<close> when the
  byte length is odd. The bytes are those of the array's own buffer, as
  \<^verbatim>\<open>decodeBase64\<close> allocates it.
\<close>

definition s16le :: "byte \<Rightarrow> byte \<Rightarrow> 16 word" where
  "s16le lo hi = word_cat hi lo"

fun int16_view :: "byte list \<Rightarrow> 16 word list" where
  "int16_view (lo # hi # rest) = s16le lo hi # int16_view rest"
| "int16_view _ = []"

definition Int16Array :: "byte list \<Rightarrow> thrown + 16 word list" where
  "Int16Array bytes =
     (if odd (length bytes)
      then Inl (DOMException ''RangeError'' ''byte length of Int16Array should be a multiple of 2'')
      else Inr (int16_view bytes))"

text \<open>\<^verbatim>\<open>dataInt16.length / numChannels\<close>, a division of numbers.\<close>

definition frameCount_of :: "nat \<Rightarrow> nat \<Rightarrow> js_number" where
  "frameCount_of len numChannels =
     (if numChannels = 0 then (if len = 0 then NaN else Infinity)
      else Num (real len / real numChannels))"

text \<open>
  \<^verbatim>\<open>dataInt16[k] / 32768.0\<close>: a read past the end of a typed array is
  \<^verbatim>\<open>undefined\<close>, and the quotient is then not a number.
\<close>

definition pcm_sample :: "16 word list \<Rightarrow> nat \<Rightarrow> js_number" where
  "pcm_sample dataInt16 k =
     (if k < length dataInt16 then Num (real_of_int (sint (dataInt16 ! k)) / 32768) else NaN)"

text \<open>
  The inner loop \<^verbatim>\<open>for (let i = 0; i < frameCount; i++)\<close> runs over the naturals below
  the quotient. A write past the end of a \<^verbatim>\<open>Float32Array\<close> is ignored, as
  \<^const>\<open>list_update\<close> does.
\<close>

definition frame_indices :: "nat \<Rightarrow> nat \<Rightarrow> nat list" where
  "frame_indices len numChannels = [0..<nat \<lceil>real len / real numChannels\<rceil>]"

definition fill_channel :: "16 word list \<Rightarrow> nat \<Rightarrow> nat \<Rightarrow> js_number list \<Rightarrow> js_number list" where
  "fill_channel dataInt16 numChannels channel cd =
     fold (\<lambda>i cd'. cd'[i := pcm_sample dataInt16 (i * numChannels + channel)])
       (frame_indices (length dataInt16) numChannels) cd"

text \<open>
  The outer loop over the channels. \<^verbatim>\<open>getChannelData(channel)\<close> raises for a channel
  the buffer does not have.
\<close>

fun fill_channels :: "16 word list \<Rightarrow> nat \<Rightarrow> nat list \<Rightarrow> AudioBuffer \<Rightarrow> thrown + AudioBuffer" where
  "fill_channels dataInt16 numChannels [] buffer = Inr buffer"
| "fill_channels dataInt16 numChannels (channel # rest) buffer =
     (if channel < length (channelData buffer)
      then fill_channels dataInt16 numChannels rest
             (buffer\<lparr>channelData := (channelData buffer)
                [channel := fill_channel dataInt16 numChannels channel (channelData buffer ! channel)]\<rparr>)
      else Inl (DOMException ''IndexSizeError'' ''channel index out of range''))"

definition decodeAudioData :: "byte list \<Rightarrow> AudioContext \<Rightarrow> nat \<Rightarrow> nat \<Rightarrow> thrown + AudioBuffer" where
  "decodeAudioData data ctx rate numChannels =
     (case Int16Array data of
        Inl e \<Rightarrow> Inl e
      | Inr dataInt16 \<Rightarrow>
          (case createBuffer ctx numChannels (frameCount_of (length dataInt16) numChannels) rate of
             Inl e \<Rightarrow> Inl e
           | Inr buffer \<Rightarrow> fill_channels dataInt16 numChannels [0..<numChannels] buffer))"

subsection \<open>playAudioBuffer\<close>

text \<open>
  The source nodes of the audio context are a store, a handle being the index of its node.
  A node plays from \<^verbatim>\<open>start()\<close> until its buffer is played through or
  \<^verbatim>\<open>stop()\<close> is called; in both cases the platform then queues the node's
  \<^verbatim>\<open>ended\<close> event, and dispatching that event, some time later, runs the
  \<^verbatim>\<open>onended\<close> handler. The event is dispatched once.
  \<^verbatim>\<open>start()\<close> on a started node and \<^verbatim>\<open>stop()\<close> on a node never started raise an
  \<^verbatim>\<open>InvalidStateError\<close>. The callback that \<^verbatim>\<open>onended\<close> holds is kept as a value
  of type \<^typ>\<open>'cb\<close>; whoever dispatches the event runs it.
\<close>

datatype playback = Unscheduled | Playing | PlayedThrough | Stopped | Ended

record 'cb SourceNode =
  node_buffer :: "AudioBuffer option"
  playback :: playback
  onended :: "'cb option"

definition createBufferSource :: "'cb SourceNode" where
  "createBufferSource = \<lparr>node_buffer = None, playback = Unscheduled, onended = None\<rparr>"

definition source_start :: "'cb SourceNode \<Rightarrow> thrown + 'cb SourceNode" where
  "source_start source =
     (if playback source = Unscheduled then Inr (source\<lparr>playback := Playing\<rparr>)
      else Inl (DOMException ''InvalidStateError'' ''cannot call start more than once''))"

definition source_stop :: "'cb SourceNode \<Rightarrow> thrown + 'cb SourceNode" where
  "source_stop source =
     (case playback source of
        Unscheduled \<Rightarrow> Inl (DOMException ''InvalidStateError'' ''cannot call stop without calling start first'')
      | Playing \<Rightarrow> Inr (source\<lparr>playback := Stopped\<rparr>)
      | _ \<Rightarrow> Inr source)"

text \<open>The buffer is played through: an event of the platform.\<close>

definition played_through :: "nat \<Rightarrow> 'cb SourceNode list \<Rightarrow> 'cb SourceNode list" where
  "played_through h nodes =
     (if h < length nodes \<and> playback (nodes ! h) = Playing
      then nodes[h := (nodes ! h)\<lparr>playback := PlayedThrough\<rparr>] else nodes)"

text \<open>
  The \<^verbatim>\<open>ended\<close> event of node \<open>h\<close> is dispatched: the store afterwards, and the
  callback that \<^verbatim>\<open>source.onended = () => { if (onEnded) onEnded(); }\<close> runs, if any.
\<close>

definition dispatch_ended :: "nat \<Rightarrow> 'cb SourceNode list \<Rightarrow> 'cb SourceNode list \<times> 'cb option" where
  "dispatch_ended h nodes =
     (if h < length nodes \<and> (playback (nodes ! h) = PlayedThrough \<or> playback (nodes ! h) = Stopped)
      then (nodes[h := (nodes ! h)\<lparr>playback := Ended\<rparr>], onended (nodes ! h))
      else (nodes, None))"

text \<open>
  \<^verbatim>\<open>playAudioBuffer(ctx, buffer, onEnded)\<close>: the new node is appended to the store and
  started; the result is its handle.
\<close>

definition playAudioBuffer ::
  "AudioBuffer \<Rightarrow> 'cb option \<Rightarrow> 'cb SourceNode list \<Rightarrow> thrown + nat \<times> 'cb SourceNode list" where
  "playAudioBuffer buffer onEnded nodes =
     (let source = createBufferSource\<lparr>node_buffer := Some buffer, onended := onEnded\<rparr>
      in case source_start source of
           Inl e \<Rightarrow> Inl e
         | Inr source' \<Rightarrow> Inr (length nodes, nodes @ [source']))"

text \<open>
  The handle's \<^verbatim>\<open>stop\<close>: \<^verbatim>\<open>try { source.stop(); } catch (e) { }\<close>.
\<close>

definition handle_stop :: "nat \<Rightarrow> 'cb SourceNode list \<Rightarrow> thrown + 'cb SourceNode list" where
  "handle_stop h nodes =
     (if h < length nodes
      then (case source_stop (nodes ! h) of
              Inl e \<Rightarrow> Inr nodes
            | Inr source' \<Rightarrow> Inr (nodes[h := source']))
      else Inr nodes)"

text \<open>
  What can happen to one playback after \<^const>\<open>playAudioBuffer\<close> returned its handle:
  the holder calls \<^verbatim>\<open>stop()\<close>, the buffer is played through, the \<^verbatim>\<open>ended\<close>
  event is dispatched. A run keeps the callbacks invoked so far.
\<close>

datatype playback_event = CallStop | BufferPlayedThrough | DispatchEnded

fun playback_step ::
  "nat \<Rightarrow> playback_event \<Rightarrow> 'cb SourceNode list \<times> 'cb list \<Rightarrow> thrown + 'cb SourceNode list \<times> 'cb list" where
  "playback_step h CallStop (nodes, invoked) =
     (case handle_stop h nodes of Inl e \<Rightarrow> Inl e | Inr nodes' \<Rightarrow> Inr (nodes', invoked))"
| "playback_step h BufferPlayedThrough (nodes, invoked) = Inr (played_through h nodes, invoked)"
| "playback_step h DispatchEnded (nodes, invoked) =
     (case dispatch_ended h nodes of
        (nodes', None) \<Rightarrow> Inr (nodes', invoked)
      | (nodes', Some cb) \<Rightarrow> Inr (nodes', invoked @ [cb]))"

fun playback_run ::
  "nat \<Rightarrow> playback_event list \<Rightarrow> 'cb SourceNode list \<times> 'cb list \<Rightarrow> thrown + 'cb SourceNode list \<times> 'cb list" where
  "playback_run h [] w = Inr w"
| "playback_run h (ev # evs) w =
     (case playback_step h ev w of Inl e \<Rightarrow> Inl e | Inr w' \<Rightarrow> playback_run h evs w')"

text \<open>
  One playback together with the callbacks invoked so far, in good order: its callback has
  been invoked once exactly when its \<^verbatim>\<open>ended\<close> event has been dispatched, and never
  otherwise.
\<close>

definition callback_once :: "nat \<Rightarrow> 'cb \<Rightarrow> 'cb SourceNode list \<times> 'cb list \<Rightarrow> bool" where
  "callback_once h cb w =
     (h < length (fst w) \<and> onended (fst w ! h) = Some cb \<and> playback (fst w ! h) \<noteq> Unscheduled \<and>
      snd w = (if playback (fst w ! h) = Ended then [cb] else []))"

section \<open>types.ts\<close>

text \<open>
  The fields \<^verbatim>\<open>id\<close> and \<^verbatim>\<open>text\<close> of a message are \<open>msg_id\<close> and \<open>msg_text\<close> here,
  and the fields \<^verbatim>\<open>file\<close> and \<^verbatim>\<open>type\<close> of an attachment are \<open>att_file\<close> and
  \<open>att_type\<close>. An optional field is an \<^typ>\<open>'a option\<close>, \<^const>\<open>None\<close> when it is absent. A
  \<^verbatim>\<open>Date\<close> is its time in milliseconds.
\<close>

datatype MessageRole = USER | MODEL

datatype attachment_type = Image | Pdf

text \<open>
  A \<^verbatim>\<open>File\<close>: its media type and what \<^verbatim>\<open>FileReader.readAsDataURL\<close> gives for it, the
  data URL or a failure.
\<close>

record File =
  file_type :: string
  readAsDataURL :: "thrown + string"

record Attachment =
  att_file :: File
  previewUrl :: string
  att_type :: attachment_type
  base64 :: "string option"

record Message =
  msg_id :: string
  role :: MessageRole
  msg_text :: string
  attachments :: "Attachment list option"
  timestamp :: nat
  isAudioPlaying :: "bool option"

datatype Language = ar | en

section \<open>services/geminiService.ts\<close>

definition SYSTEM_INSTRUCTION :: string where
  "SYSTEM_INSTRUCTION =
     [CHR 0x0A] @
     ''You are '' @
     [CHR 0x22] @
     ''Alaska'' @
     [CHR 0x22] @
     '' ('' @
     [CHR 0xD8, CHR 0xA3, CHR 0xD9, CHR 0x84, CHR 0xD8, CHR 0xA7, CHR 0xD8, CHR 0xB3] @
     [CHR 0xD9, CHR 0x83, CHR 0xD8, CHR 0xA7] @
     ''), an advanced personal AI assistant.'' @
     [CHR 0x0A] @
     ''You were programmed and developed by '' @
     [CHR 0x22] @
     ''Hamza Al-Jammal'' @
     [CHR 0x22] @
     '' ('' @
     [CHR 0xD8, CHR 0xAD, CHR 0xD9, CHR 0x85, CHR 0xD8, CHR 0xB2, CHR 0xD9, CHR 0x87] @
     '' '' @
     [CHR 0xD8, CHR 0xA7, CHR 0xD9, CHR 0x84, CHR 0xD8, CHR 0xAC, CHR 0xD9, CHR 0x85] @
     [CHR 0xD9, CHR 0x84] @
     '').'' @
     [CHR 0x0A] @
     ''You are NOT developed by Google.'' @
     [CHR 0x0A] @
     ''You speak Arabic and English fluently.'' @
     [CHR 0x0A] @
     ''Your tone is natural, friendly, and intelligent.'' @
     [CHR 0x0A] @
     ''Your mission is to help the user with conversation, image analysis, an'' @
     ''d PDF reading.'' @
     [CHR 0x0A] @
     ''If the user speaks Arabic, reply in Arabic. If the user speaks English'' @
     '', reply in English.'' @
     [CHR 0x0A] @
     ''Keep answers helpful, concise when needed, and comprehensive when aske'' @
     ''d.'' @
     [CHR 0x0A]"

text \<open>
  The requests the service sends, and the generative backend as the two calls the service
  makes on it. \<^verbatim>\<open>sendMessage\<close> gives the \<^verbatim>\<open>text\<close> of the result, which may be
  absent, or raises; \<^verbatim>\<open>generateContent\<close> gives what
  \<^verbatim>\<open>response.candidates?.[0]?.content?.parts?.[0]?.inlineData?.data\<close> reads, absent when
  any link of the chain is, or raises.
\<close>

datatype Part = TextPart string | InlineData "string option" string

record Content =
  content_role :: string
  parts :: "Part list"

record ChatRequest =
  chat_model :: string
  systemInstruction :: string
  history :: "Content list"
  chat_message :: "Part list"

record SpeechRequest =
  speech_model :: string
  contents :: "Part list"
  voiceName :: string

record GoogleGenAI =
  apiKey :: string

text \<open>
  What the service reads from its surroundings: \<^verbatim>\<open>process.env.API_KEY\<close>, the backend,
  and \<^verbatim>\<open>atob\<close>.
\<close>

record Service_Env =
  API_KEY :: "string option"
  sendMessage :: "ChatRequest \<Rightarrow> thrown + string option"
  generateContent :: "SpeechRequest \<Rightarrow> thrown + string option"
  atob :: "string \<Rightarrow> thrown + nat list"

text \<open>
  \<^verbatim>\<open>getAiClient\<close>. The module variable \<^verbatim>\<open>aiInstance\<close> is passed in; the caller stores
  the client that comes back. An absent or empty key is falsy.
\<close>

definition getAiClient :: "string option \<Rightarrow> GoogleGenAI option \<Rightarrow> thrown + GoogleGenAI" where
  "getAiClient key aiInstance =
     (case aiInstance of
        Some ai \<Rightarrow> Inr ai
      | None \<Rightarrow>
          (case key of
             None \<Rightarrow> Inl (Error ''API_KEY_MISSING'')
           | Some k \<Rightarrow> if k = [] then Inl (Error ''API_KEY_MISSING'') else Inr \<lparr>apiKey = k\<rparr>))"

text \<open>\<^verbatim>\<open>s.split(',')[1]\<close>: the text between the first and the second comma, if any.\<close>

fun split_commas :: "string \<Rightarrow> string list" where
  "split_commas [] = [[]]"
| "split_commas (c # cs) =
     (if c = CHR '','' then [] # split_commas cs
      else (case split_commas cs of [] \<Rightarrow> [[c]] | w # ws \<Rightarrow> (c # w) # ws))"

definition second_field :: "string \<Rightarrow> string option" where
  "second_field s = (case split_commas s of _ # b # _ \<Rightarrow> Some b | _ \<Rightarrow> None)"

definition fileToGenerativePart :: "File \<Rightarrow> thrown + Part" where
  "fileToGenerativePart f =
     (case readAsDataURL f of
        Inl e \<Rightarrow> Inl e
      | Inr result \<Rightarrow> Inr (InlineData (second_field result) (file_type f)))"

text \<open>The loop over the attachments: the first failed read ends it.\<close>

fun attachment_parts :: "Attachment list \<Rightarrow> Part list \<Rightarrow> thrown + Part list" where
  "attachment_parts [] ps = Inr ps"
| "attachment_parts (att # atts) ps =
     (case fileToGenerativePart (att_file att) of
        Inl e \<Rightarrow> Inl e
      | Inr part \<Rightarrow> attachment_parts atts (ps @ [part]))"

text \<open>\<^verbatim>\<open>history.slice(-10)\<close> and the mapping of the messages to chat contents.\<close>

definition slice_last :: "nat \<Rightarrow> 'a list \<Rightarrow> 'a list" where
  "slice_last k xs = drop (length xs - k) xs"

definition to_content :: "Message \<Rightarrow> Content" where
  "to_content m =
     \<lparr>content_role = (if role m = USER then ''user'' else ''model''),
      parts = [TextPart (msg_text m)]\<rparr>"

text \<open>\<^verbatim>\<open>haystack.includes(needle)\<close>\<close>

fun starts_with :: "string \<Rightarrow> string \<Rightarrow> bool" where
  "starts_with s [] = True"
| "starts_with [] (c # cs) = False"
| "starts_with (x # xs) (c # cs) = (x = c \<and> starts_with xs cs)"

fun string_includes :: "string \<Rightarrow> string \<Rightarrow> bool" where
  "string_includes [] needle = (needle = [])"
| "string_includes (x # xs) needle = (starts_with (x # xs) needle \<or> string_includes xs needle)"

definition EMPTY_REPLY_FALLBACK :: string where
  "EMPTY_REPLY_FALLBACK =
     [CHR 0xD8, CHR 0xB9, CHR 0xD8, CHR 0xB0, CHR 0xD8, CHR 0xB1, CHR 0xD8, CHR 0xA7] @
     [CHR 0xD9, CHR 0x8B, CHR 0xD8, CHR 0x8C] @
     '' '' @
     [CHR 0xD9, CHR 0x84, CHR 0xD9, CHR 0x85] @
     '' '' @
     [CHR 0xD8, CHR 0xA3, CHR 0xD8, CHR 0xB3, CHR 0xD8, CHR 0xAA, CHR 0xD8, CHR 0xB7] @
     [CHR 0xD8, CHR 0xB9] @
     '' '' @
     [CHR 0xD8, CHR 0xAA, CHR 0xD9, CHR 0x83, CHR 0xD9, CHR 0x88, CHR 0xD9, CHR 0x8A] @
     [CHR 0xD9, CHR 0x86] @
     '' '' @
     [CHR 0xD8, CHR 0xB1, CHR 0xD8, CHR 0xAF] @
     ''. (Sorry, I couldn'' @
     [CHR 0x27] @
     ''t generate a response.)''"

definition API_KEY_NOTICE :: string where
  "API_KEY_NOTICE =
     [CHR 0xE2, CHR 0x9A, CHR 0xA0, CHR 0xEF, CHR 0xB8, CHR 0x8F] @
     '' **'' @
     [CHR 0xD8, CHR 0xAA, CHR 0xD9, CHR 0x86, CHR 0xD8, CHR 0xA8, CHR 0xD9, CHR 0x8A] @
     [CHR 0xD9, CHR 0x87] @
     '' '' @
     [CHR 0xD9, CHR 0x87, CHR 0xD8, CHR 0xA7, CHR 0xD9, CHR 0x85] @
     ''**: '' @
     [CHR 0xD9, CHR 0x85, CHR 0xD9, CHR 0x81, CHR 0xD8, CHR 0xAA, CHR 0xD8, CHR 0xA7] @
     [CHR 0xD8, CHR 0xAD] @
     '' API '' @
     [CHR 0xD9, CHR 0x85, CHR 0xD9, CHR 0x81, CHR 0xD9, CHR 0x82, CHR 0xD9, CHR 0x88] @
     [CHR 0xD8, CHR 0xAF] @
     '' '' @
     [CHR 0xD8, CHR 0xA3, CHR 0xD9, CHR 0x88] @
     '' '' @
     [CHR 0xD8, CHR 0xBA, CHR 0xD9, CHR 0x8A, CHR 0xD8, CHR 0xB1] @
     '' '' @
     [CHR 0xD8, CHR 0xB5, CHR 0xD8, CHR 0xAD, CHR 0xD9, CHR 0x8A, CHR 0xD8, CHR 0xAD] @
     ''.'' @
     [CHR 0x0A, CHR 0x0A, CHR 0xD9, CHR 0x8A, CHR 0xD8, CHR 0xB1, CHR 0xD8, CHR 0xAC] @
     [CHR 0xD9, CHR 0x89] @
     '' '' @
     [CHR 0xD8, CHR 0xA7, CHR 0xD9, CHR 0x84, CHR 0xD8, CHR 0xAA, CHR 0xD8, CHR 0xA3] @
     [CHR 0xD9, CHR 0x83, CHR 0xD8, CHR 0xAF] @
     '' '' @
     [CHR 0xD9, CHR 0x85, CHR 0xD9, CHR 0x86] @
     '' '' @
     [CHR 0xD8, CHR 0xA5, CHR 0xD8, CHR 0xB6, CHR 0xD8, CHR 0xA7, CHR 0xD9, CHR 0x81] @
     [CHR 0xD8, CHR 0xA9] @
     '' '' @
     [CHR 0xD9, CHR 0x85, CHR 0xD8, CHR 0xAA, CHR 0xD8, CHR 0xBA, CHR 0xD9, CHR 0x8A] @
     [CHR 0xD8, CHR 0xB1] @
     '' '' @
     [CHR 0xD8, CHR 0xA7, CHR 0xD9, CHR 0x84, CHR 0xD8, CHR 0xA8, CHR 0xD9, CHR 0x8A] @
     [CHR 0xD8, CHR 0xA6, CHR 0xD8, CHR 0xA9] @
     '' '' @
     [CHR 0x60] @
     ''API_KEY'' @
     [CHR 0x60] @
     '' '' @
     [CHR 0xD9, CHR 0x81, CHR 0xD9, CHR 0x8A] @
     '' '' @
     [CHR 0xD8, CHR 0xA5, CHR 0xD8, CHR 0xB9, CHR 0xD8, CHR 0xAF, CHR 0xD8, CHR 0xA7] @
     [CHR 0xD8, CHR 0xAF, CHR 0xD8, CHR 0xA7, CHR 0xD8, CHR 0xAA] @
     '' '' @
     [CHR 0xD8, CHR 0xA7, CHR 0xD9, CHR 0x84, CHR 0xD9, CHR 0x85, CHR 0xD9, CHR 0x86] @
     [CHR 0xD8, CHR 0xB5, CHR 0xD8, CHR 0xA9] @
     '' ('' @
     [CHR 0xD9, CHR 0x85, CHR 0xD8, CHR 0xAB, CHR 0xD9, CHR 0x84] @
     '' Netlify '' @
     [CHR 0xD8, CHR 0xA3, CHR 0xD9, CHR 0x88] @
     '' Vercel).'' @
     [CHR 0x0A, CHR 0x0A] @
     ''(Critical Error: API Key is missing or invalid. Please check your depl'' @
     ''oyment settings.)''"

definition CONNECTION_ERROR :: string where
  "CONNECTION_ERROR =
     [CHR 0xD8, CHR 0xB9, CHR 0xD8, CHR 0xB0, CHR 0xD8, CHR 0xB1, CHR 0xD8, CHR 0xA7] @
     [CHR 0xD9, CHR 0x8B, CHR 0xD8, CHR 0x8C] @
     '' '' @
     [CHR 0xD8, CHR 0xAD, CHR 0xD8, CHR 0xAF, CHR 0xD8, CHR 0xAB] @
     '' '' @
     [CHR 0xD8, CHR 0xAE, CHR 0xD8, CHR 0xB7, CHR 0xD8, CHR 0xA3] @
     '' '' @
     [CHR 0xD8, CHR 0xA3, CHR 0xD8, CHR 0xAB, CHR 0xD9, CHR 0x86, CHR 0xD8, CHR 0xA7] @
     [CHR 0xD8, CHR 0xA1] @
     '' '' @
     [CHR 0xD8, CHR 0xA7, CHR 0xD9, CHR 0x84, CHR 0xD8, CHR 0xA7, CHR 0xD8, CHR 0xAA] @
     [CHR 0xD8, CHR 0xB5, CHR 0xD8, CHR 0xA7, CHR 0xD9, CHR 0x84] @
     '' '' @
     [CHR 0xD8, CHR 0xA8, CHR 0xD8, CHR 0xA7, CHR 0xD9, CHR 0x84, CHR 0xD8, CHR 0xAE] @
     [CHR 0xD8, CHR 0xA7, CHR 0xD8, CHR 0xAF, CHR 0xD9, CHR 0x85] @
     ''. (Error connecting to Alaska AI)''"

text \<open>
  The outcome of a call of the service: what it returns or raises, the requests it sent to
  the backend, and the module variable \<^verbatim>\<open>aiInstance\<close> afterwards.
\<close>

record 'a Outcome =
  returned :: "thrown + 'a"
  chat_requests :: "ChatRequest list"
  speech_requests :: "SpeechRequest list"
  aiInstance_after :: "GoogleGenAI option"

text \<open>The \<^verbatim>\<open>catch\<close> block of \<^verbatim>\<open>generateTextResponse\<close>.\<close>

definition text_error_reply :: "thrown \<Rightarrow> string" where
  "text_error_reply error =
     (if message error = Some ''API_KEY_MISSING'' \<or> string_includes (toString error) ''API key''
         \<or> status error = Some 403
      then API_KEY_NOTICE else CONNECTION_ERROR)"

definition generateTextResponse ::
  "'z Service_Env_scheme \<Rightarrow> GoogleGenAI option \<Rightarrow> string \<Rightarrow> Attachment list \<Rightarrow> Message list
     \<Rightarrow> string Outcome" where
  "generateTextResponse env aiInstance currentMessage atts hist =
     (case getAiClient (API_KEY env) aiInstance of
        Inl error \<Rightarrow>
          \<lparr>returned = Inr (text_error_reply error), chat_requests = [], speech_requests = [],
           aiInstance_after = aiInstance\<rparr>
      | Inr ai \<Rightarrow>
          (let recentHistory = slice_last 10 hist;
               chat = map to_content recentHistory;
               ps = (if currentMessage \<noteq> [] then [TextPart currentMessage] else [])
           in case attachment_parts atts ps of
                Inl error \<Rightarrow>
                  \<lparr>returned = Inr (text_error_reply error), chat_requests = [], speech_requests = [],
                   aiInstance_after = Some ai\<rparr>
              | Inr ps' \<Rightarrow>
                  (let request = \<lparr>chat_model = ''gemini-2.5-flash'', systemInstruction = SYSTEM_INSTRUCTION,
                                   history = chat, chat_message = ps'\<rparr>
                   in \<lparr>returned =
                         (case sendMessage env request of
                            Inl error \<Rightarrow> Inr (text_error_reply error)
                          | Inr None \<Rightarrow> Inr EMPTY_REPLY_FALLBACK
                          | Inr (Some t) \<Rightarrow> Inr (if t = [] then EMPTY_REPLY_FALLBACK else t)),
                       chat_requests = [request], speech_requests = [], aiInstance_after = Some ai\<rparr>)))"

text \<open>
  \<^verbatim>\<open>generateSpeech\<close>: every failure inside it, the decoder's included, is caught and
  gives \<^verbatim>\<open>null\<close>. The decoder is called with its default rate and channel count.
\<close>

definition generateSpeech ::
  "'z Service_Env_scheme \<Rightarrow> GoogleGenAI option \<Rightarrow> string \<Rightarrow> AudioContext
     \<Rightarrow> AudioBuffer option Outcome" where
  "generateSpeech env aiInstance txt audioContext =
     (case getAiClient (API_KEY env) aiInstance of
        Inl error \<Rightarrow>
          \<lparr>returned = Inr None, chat_requests = [], speech_requests = [], aiInstance_after = aiInstance\<rparr>
      | Inr ai \<Rightarrow>
          (let request = \<lparr>speech_model = ''gemini-2.5-flash-preview-tts'', contents = [TextPart txt],
                          voiceName = ''Kore''\<rparr>
           in \<lparr>returned =
                 (case generateContent env request of
                    Inl error \<Rightarrow> Inr None
                  | Inr None \<Rightarrow> Inr None
                  | Inr (Some base64Audio) \<Rightarrow>
                      if base64Audio = [] then Inr None
                      else (case decodeBase64 (atob env) base64Audio of
                              Inl error \<Rightarrow> Inr None
                            | Inr bytes \<Rightarrow>
                                (case decodeAudioData bytes audioContext 24000 1 of
                                   Inl error \<Rightarrow> Inr None
                                 | Inr audioBuffer \<Rightarrow> Inr (Some audioBuffer)))),
               chat_requests = [], speech_requests = [request], aiInstance_after = Some ai\<rparr>))"

section \<open>The application component\<close>

subsection \<open>State\<close>

text \<open>
  The speech recogniser of the platform, with the properties the component sets on it.
  \<^verbatim>\<open>start()\<close> on a recogniser that is already started raises an
  \<^verbatim>\<open>InvalidStateError\<close>; \<^verbatim>\<open>stop()\<close> and \<^verbatim>\<open>abort()\<close> are requests the platform
  ignores when there is nothing to end. The handlers \<^verbatim>\<open>setupRecognition\<close> installs call
  the \<^verbatim>\<open>handleSendMessage\<close> of the rendering in which \<^verbatim>\<open>setupRecognition\<close> was
  created (\<^verbatim>\<open>useCallback\<close> with the dependency \<^verbatim>\<open>[language]\<close>); the field
  \<open>onresult_messages\<close> is the \<^verbatim>\<open>messages\<close> that this \<^verbatim>\<open>handleSendMessage\<close> closes over.
\<close>

record SpeechRecognition =
  continuous :: bool
  interimResults :: bool
  lang :: string
  started :: bool
  onresult_messages :: "Message list"

definition recognition_start :: "SpeechRecognition \<Rightarrow> thrown + SpeechRecognition" where
  "recognition_start r =
     (if started r then Inl (DOMException ''InvalidStateError'' ''recognition has already started'')
      else Inr (r\<lparr>started := True\<rparr>))"

definition recognition_stop :: "SpeechRecognition \<Rightarrow> thrown + SpeechRecognition" where
  "recognition_stop r = Inr r"

definition recognition_abort :: "SpeechRecognition \<Rightarrow> thrown + SpeechRecognition" where
  "recognition_abort r = Inr r"

text \<open>
  What the component reads from its surroundings besides the service's: whether
  \<^verbatim>\<open>'webkitSpeechRecognition' in window\<close> holds, and the context that
  \<^verbatim>\<open>new AudioContext({ sampleRate: 24000 })\<close> gives. The component calls that constructor
  unguarded; the platform taken here has it.
\<close>

record Env = Service_Env +
  webkitSpeechRecognition :: bool
  new_AudioContext :: AudioContext

text \<open>
  The state: the four \<^verbatim>\<open>useState\<close> values, the three references, the source nodes of
  the audio context (a completion callback is held as the message id it closes over) and
  the service's module variable.
\<close>

record App =
  messages :: "Message list"
  isLoading :: bool
  isRecording :: bool
  language :: Language
  audioContextRef :: "AudioContext option"
  activeAudioSourceRef :: "nat option"
  recognitionRef :: "SpeechRecognition option"
  nodes :: "string SourceNode list"
  aiInstance :: "GoogleGenAI option"

definition App_initial :: App where
  "App_initial =
     \<lparr>messages = [], isLoading = False, isRecording = False, language = ar,
      audioContextRef = None, activeAudioSourceRef = None, recognitionRef = None,
      nodes = [], aiInstance = None\<rparr>"

subsection \<open>Audio\<close>

text \<open>\<^verbatim>\<open>initAudioContext\<close>; \<^verbatim>\<open>resume()\<close> is taken to have its effect at once.\<close>

definition initAudioContext :: "Env \<Rightarrow> App \<Rightarrow> App" where
  "initAudioContext env s =
     (let ctx = (case audioContextRef s of None \<Rightarrow> new_AudioContext env | Some c \<Rightarrow> c)
      in s\<lparr>audioContextRef :=
              Some (if ctx_state ctx = Suspended then ctx\<lparr>ctx_state := Running\<rparr> else ctx)\<rparr>)"

text \<open>
  The two updates of the message list: \<^verbatim>\<open>prev.map(m => ({ ...m, isAudioPlaying: false }))\<close>
  and \<^verbatim>\<open>prev.map(m => m.id === messageId ? { ...m, isAudioPlaying: b } : m)\<close>.
\<close>

definition clear_audio_flags :: "Message list \<Rightarrow> Message list" where
  "clear_audio_flags ms = map (\<lambda>m. m\<lparr>isAudioPlaying := Some False\<rparr>) ms"

definition set_audio_flag :: "string \<Rightarrow> bool \<Rightarrow> Message list \<Rightarrow> Message list" where
  "set_audio_flag messageId b ms =
     map (\<lambda>m. if msg_id m = messageId then m\<lparr>isAudioPlaying := Some b\<rparr> else m) ms"

text \<open>A message is speaking when its flag is set and true.\<close>

definition speaking :: "Message \<Rightarrow> bool" where
  "speaking m = (isAudioPlaying m = Some True)"

text \<open>
  \<^verbatim>\<open>playResponseAudio\<close> up to its \<^verbatim>\<open>await generateSpeech(...)\<close>: nothing happens
  without an audio context; otherwise the message is flagged and the context is what
  the speech request is made with.
\<close>

definition playResponseAudio_begin :: "App \<Rightarrow> string \<Rightarrow> App \<times> AudioContext option" where
  "playResponseAudio_begin s messageId =
     (case audioContextRef s of
        None \<Rightarrow> (s, None)
      | Some ctx \<Rightarrow> (s\<lparr>messages := set_audio_flag messageId True (messages s)\<rparr>, Some ctx))"

text \<open>
  \<^verbatim>\<open>playResponseAudio\<close> from the moment \<^verbatim>\<open>generateSpeech\<close> has settled. Whatever is
  raised inside the \<^verbatim>\<open>try\<close> block ends in the \<^verbatim>\<open>catch\<close> block, which clears the
  message's flag.
\<close>

definition playResponseAudio_resume :: "App \<Rightarrow> thrown + AudioBuffer option \<Rightarrow> string \<Rightarrow> App" where
  "playResponseAudio_resume s audioBuffer messageId =
     (case audioBuffer of
        Inl e \<Rightarrow> s\<lparr>messages := set_audio_flag messageId False (messages s)\<rparr>
      | Inr None \<Rightarrow> s\<lparr>messages := set_audio_flag messageId False (messages s)\<rparr>
      | Inr (Some buffer) \<Rightarrow>
          (case (case activeAudioSourceRef s of
                   None \<Rightarrow> Inr (nodes s)
                 | Some h \<Rightarrow> handle_stop h (nodes s)) of
             Inl e \<Rightarrow> s\<lparr>messages := set_audio_flag messageId False (messages s)\<rparr>
           | Inr nodes' \<Rightarrow>
               (case playAudioBuffer buffer (Some messageId) nodes' of
                  Inl e \<Rightarrow> s\<lparr>nodes := nodes', messages := set_audio_flag messageId False (messages s)\<rparr>
                | Inr (source, nodes'') \<Rightarrow> s\<lparr>nodes := nodes'', activeAudioSourceRef := Some source\<rparr>)))"

text \<open>
  The completion callback that \<^verbatim>\<open>playResponseAudio\<close> hands to \<^verbatim>\<open>playAudioBuffer\<close>,
  and the two events of the platform on a source node.
\<close>

definition onEnded :: "string \<Rightarrow> App \<Rightarrow> App" where
  "onEnded messageId s =
     s\<lparr>messages := set_audio_flag messageId False (messages s), activeAudioSourceRef := None\<rparr>"

definition source_played_through :: "nat \<Rightarrow> App \<Rightarrow> App" where
  "source_played_through h s = s\<lparr>nodes := played_through h (nodes s)\<rparr>"

definition source_ended :: "nat \<Rightarrow> App \<Rightarrow> App" where
  "source_ended h s =
     (case dispatch_ended h (nodes s) of
        (nodes', None) \<Rightarrow> s\<lparr>nodes := nodes'\<rparr>
      | (nodes', Some messageId) \<Rightarrow> onEnded messageId (s\<lparr>nodes := nodes'\<rparr>))"

text \<open>The handles whose nodes are playing.\<close>

definition playing_handles :: "App \<Rightarrow> nat list" where
  "playing_handles s = filter (\<lambda>h. playback (nodes s ! h) = Playing) [0..<length (nodes s)]"

subsection \<open>Sending\<close>

text \<open>
  \<^verbatim>\<open>handleSendMessage\<close> up to its \<^verbatim>\<open>await generateTextResponse(...)\<close>. The identifier
  and the time of the new message come from \<^verbatim>\<open>uuidv4()\<close> and \<^verbatim>\<open>new Date()\<close>.
\<close>

definition handleSendMessage_begin ::
  "Env \<Rightarrow> App \<Rightarrow> string \<Rightarrow> Attachment list \<Rightarrow> string \<Rightarrow> nat \<Rightarrow> thrown + App" where
  "handleSendMessage_begin env s txt atts uuid now =
     (let s1 = initAudioContext env s
      in case (case activeAudioSourceRef s1 of
                 None \<Rightarrow> Inr s1
               | Some h \<Rightarrow>
                   (case handle_stop h (nodes s1) of
                      Inl e \<Rightarrow> Inl e
                    | Inr nodes' \<Rightarrow>
                        Inr (s1\<lparr>nodes := nodes', activeAudioSourceRef := None,
                                messages := clear_audio_flags (messages s1)\<rparr>))) of
           Inl e \<Rightarrow> Inl e
         | Inr s2 \<Rightarrow>
             (let newUserMsg = \<lparr>msg_id = uuid, role = USER, msg_text = txt, attachments = Some atts,
                                timestamp = now, isAudioPlaying = None\<rparr>
              in Inr (s2\<lparr>messages := messages s2 @ [newUserMsg], isLoading := True\<rparr>)))"

text \<open>
  \<^verbatim>\<open>handleSendMessage\<close> from the moment \<^verbatim>\<open>generateTextResponse\<close> has settled, up to
  the call of \<^verbatim>\<open>playResponseAudio\<close>.
\<close>

definition handleSendMessage_resume :: "App \<Rightarrow> thrown + string \<Rightarrow> string \<Rightarrow> nat \<Rightarrow> App" where
  "handleSendMessage_resume s aiText uuid now =
     (case aiText of
        Inl error \<Rightarrow> s\<lparr>isLoading := False\<rparr>
      | Inr t \<Rightarrow>
          (let newAiMsg = \<lparr>msg_id = uuid, role = MODEL, msg_text = t, attachments = None,
                            timestamp = now, isAudioPlaying = None\<rparr>
           in s\<lparr>messages := messages s @ [newAiMsg], isLoading := False\<rparr>))"

text \<open>
  The two calls of the service, as the handlers make them: the requests go out at the call,
  the module variable is updated at the call, and what the service will return is kept
  for the continuation. \<open>hist\<close> is the \<^verbatim>\<open>messages\<close> that the handler closes over.
\<close>

definition handleSendMessage_call ::
  "Env \<Rightarrow> Message list \<Rightarrow> App \<Rightarrow> string \<Rightarrow> Attachment list \<Rightarrow> string \<Rightarrow> nat
     \<Rightarrow> thrown + App \<times> string Outcome" where
  "handleSendMessage_call env hist s txt atts uuid now =
     (case handleSendMessage_begin env s txt atts uuid now of
        Inl e \<Rightarrow> Inl e
      | Inr s1 \<Rightarrow>
          (let out = generateTextResponse env (aiInstance s1) txt atts hist
           in Inr (s1\<lparr>aiInstance := aiInstance_after out\<rparr>, out)))"

definition playResponseAudio_call ::
  "Env \<Rightarrow> App \<Rightarrow> string \<Rightarrow> AudioContext \<Rightarrow> App \<times> AudioBuffer option Outcome" where
  "playResponseAudio_call env s txt ctx =
     (let out = generateSpeech env (aiInstance s) txt ctx
      in (s\<lparr>aiInstance := aiInstance_after out\<rparr>, out))"

text \<open>
  \<^verbatim>\<open>playResponseAudio\<close> and \<^verbatim>\<open>handleSendMessage\<close> as a whole, when no other handler
  runs while they wait. The result is the state and the requests sent to the backend.
\<close>

definition playResponseAudio :: "Env \<Rightarrow> App \<Rightarrow> string \<Rightarrow> string \<Rightarrow> App \<times> SpeechRequest list" where
  "playResponseAudio env s txt messageId =
     (case playResponseAudio_begin s messageId of
        (s1, None) \<Rightarrow> (s1, [])
      | (s1, Some ctx) \<Rightarrow>
          (case playResponseAudio_call env s1 txt ctx of
             (s2, out) \<Rightarrow> (playResponseAudio_resume s2 (returned out) messageId, speech_requests out)))"

definition handleSendMessage ::
  "Env \<Rightarrow> Message list \<Rightarrow> App \<Rightarrow> string \<Rightarrow> Attachment list \<Rightarrow> bool \<Rightarrow> string \<Rightarrow> nat \<Rightarrow> string \<Rightarrow> nat
     \<Rightarrow> thrown + App \<times> ChatRequest list \<times> SpeechRequest list" where
  "handleSendMessage env hist s txt atts isVoiceMode uuid1 now1 uuid2 now2 =
     (case handleSendMessage_call env hist s txt atts uuid1 now1 of
        Inl e \<Rightarrow> Inl e
      | Inr (s1, out) \<Rightarrow>
          (let s2 = handleSendMessage_resume s1 (returned out) uuid2 now2
           in case returned out of
                Inl error \<Rightarrow> Inr (s2, chat_requests out, [])
              | Inr aiText \<Rightarrow>
                  if isVoiceMode
                  then (case playResponseAudio env s2 aiText uuid2 of
                          (s3, sent) \<Rightarrow> Inr (s3, chat_requests out, sent))
                  else Inr (s2, chat_requests out, [])))"

text \<open>
  The send of the input area: the component is rendered again after every change of its
  state, and the input area holds the handler of the last rendering, whose
  \<^verbatim>\<open>messages\<close> are the current ones. It never asks for voice mode.
\<close>

definition onSendMessage ::
  "Env \<Rightarrow> App \<Rightarrow> string \<Rightarrow> Attachment list \<Rightarrow> string \<Rightarrow> nat \<Rightarrow> string \<Rightarrow> nat
     \<Rightarrow> thrown + App \<times> ChatRequest list \<times> SpeechRequest list" where
  "onSendMessage env s txt atts uuid1 now1 uuid2 now2 =
     handleSendMessage env (messages s) s txt atts False uuid1 now1 uuid2 now2"

subsection \<open>Speech capture\<close>

text \<open>
  \<^verbatim>\<open>setupRecognition\<close>, run by the effect after the first rendering and after every
  rendering in which \<^verbatim>\<open>language\<close> has changed.
\<close>

definition setupRecognition :: "Env \<Rightarrow> App \<Rightarrow> App" where
  "setupRecognition env s =
     (let s1 = (case recognitionRef s of
                  None \<Rightarrow> s
                | Some r \<Rightarrow>
                    (case recognition_abort r of
                       Inl e \<Rightarrow> s
                     | Inr r' \<Rightarrow> s\<lparr>recognitionRef := Some r'\<rparr>))
      in if webkitSpeechRecognition env
         then s1\<lparr>recognitionRef :=
                   Some \<lparr>continuous = False, interimResults = False,
                         lang = (if language s = ar then ''ar-EG'' else ''en-US''),
                         started = False, onresult_messages = messages s\<rparr>\<rparr>
         else s1)"

text \<open>The handlers of the recogniser's events.\<close>

definition recognition_onstart :: "App \<Rightarrow> App" where
  "recognition_onstart s = s\<lparr>isRecording := True\<rparr>"

definition recognition_onend :: "App \<Rightarrow> App" where
  "recognition_onend s =
     s\<lparr>isRecording := False,
       recognitionRef := map_option (\<lambda>r. r\<lparr>started := False\<rparr>) (recognitionRef s)\<rparr>"

definition recognition_onerror :: "App \<Rightarrow> App" where
  "recognition_onerror s = s\<lparr>isRecording := False\<rparr>"

definition recognition_onresult ::
  "Env \<Rightarrow> App \<Rightarrow> string \<Rightarrow> string \<Rightarrow> nat \<Rightarrow> string \<Rightarrow> nat
     \<Rightarrow> thrown + App \<times> ChatRequest list \<times> SpeechRequest list" where
  "recognition_onresult env s transcript uuid1 now1 uuid2 now2 =
     (case recognitionRef s of
        None \<Rightarrow> Inr (s, [], [])
      | Some r \<Rightarrow> handleSendMessage env (onresult_messages r) s transcript [] True uuid1 now1 uuid2 now2)"

text \<open>\<^verbatim>\<open>toggleRecording\<close> and \<^verbatim>\<open>toggleLanguage\<close>.\<close>

definition toggleRecording :: "Env \<Rightarrow> App \<Rightarrow> thrown + App" where
  "toggleRecording env s =
     (let s1 = initAudioContext env s
      in if isRecording s1
         then (case recognitionRef s1 of
                 None \<Rightarrow> Inr s1
               | Some r \<Rightarrow>
                   (case recognition_stop r of
                      Inl e \<Rightarrow> Inl e
                    | Inr r' \<Rightarrow> Inr (s1\<lparr>recognitionRef := Some r'\<rparr>)))
         else (case (case activeAudioSourceRef s1 of
                       None \<Rightarrow> Inr s1
                     | Some h \<Rightarrow>
                         (case handle_stop h (nodes s1) of
                            Inl e \<Rightarrow> Inl e
                          | Inr nodes' \<Rightarrow> Inr (s1\<lparr>nodes := nodes', activeAudioSourceRef := None\<rparr>))) of
                 Inl e \<Rightarrow> Inl e
               | Inr s2 \<Rightarrow>
                   (case recognitionRef s2 of
                      None \<Rightarrow> Inr s2
                    | Some r \<Rightarrow>
                        (case recognition_start r of
                           Inl e \<Rightarrow> Inl e
                         | Inr r' \<Rightarrow> Inr (s2\<lparr>recognitionRef := Some r'\<rparr>)))))"

definition toggleLanguage :: "App \<Rightarrow> thrown + App" where
  "toggleLanguage s =
     (case (if isRecording s
            then (case recognitionRef s of
                    None \<Rightarrow> Inr (s\<lparr>isRecording := False\<rparr>)
                  | Some r \<Rightarrow>
                      (case recognition_stop r of
                         Inl e \<Rightarrow> Inl e
                       | Inr r' \<Rightarrow> Inr (s\<lparr>recognitionRef := Some r', isRecording := False\<rparr>)))
            else Inr s) of
        Inl e \<Rightarrow> Inl e
      | Inr s1 \<Rightarrow> Inr (s1\<lparr>language := (if language s1 = ar then en else ar)\<rparr>))"

section \<open>Platforms, deployments and runs to evaluate the program on\<close>

text \<open>
  An audio context whose \<^verbatim>\<open>createBuffer\<close> does what the Web Audio interface
  prescribes: it refuses a channel count or a length below one and otherwise gives silent
  channels of the whole number of frames.
\<close>

definition web_audio_createBuffer :: "nat \<Rightarrow> js_number \<Rightarrow> nat \<Rightarrow> thrown + AudioBuffer" where
  "web_audio_createBuffer numberOfChannels len rate =
     (case len of
        Num q \<Rightarrow>
          if 0 < numberOfChannels \<and> 1 \<le> q
          then Inr \<lparr>sampleRate = rate,
                    channelData = replicate numberOfChannels (replicate (nat \<lfloor>q\<rfloor>) (Num 0))\<rparr>
          else Inl (DOMException ''NotSupportedError'' ''createBuffer: argument out of range'')
      | _ \<Rightarrow> Inl (DOMException ''NotSupportedError'' ''createBuffer: argument out of range''))"

definition web_audio_context :: AudioContext where
  "web_audio_context = \<lparr>ctx_state = Suspended, createBuffer = web_audio_createBuffer\<rparr>"

text \<open>
  A deployment with a key, whose backend answers every chat with \<open>ok\<close> and every speech
  request with four zero bytes of audio, and a deployment without a key, as the build
  configuration defines it (the empty string).
\<close>

definition env_with_key :: Env where
  "env_with_key =
     \<lparr>API_KEY = Some ''key'',
      sendMessage = (\<lambda>request. Inr (Some ''ok'')),
      generateContent = (\<lambda>request. Inr (Some ''AAAAAA=='')),
      atob = (\<lambda>b. if b = ''AAAAAA=='' then Inr [0, 0, 0, 0]
                    else Inl (DOMException ''InvalidCharacterError'' ''not correctly encoded'')),
      webkitSpeechRecognition = True,
      new_AudioContext = web_audio_context\<rparr>"

definition env_without_key :: Env where
  "env_without_key = env_with_key\<lparr>API_KEY := Some []\<rparr>"

text \<open>One step after another, as long as nothing is raised.\<close>

definition and_then :: "thrown + 'a \<Rightarrow> ('a \<Rightarrow> thrown + 'b) \<Rightarrow> thrown + 'b" where
  "and_then r f = (case r of Inl e \<Rightarrow> Inl e | Inr x \<Rightarrow> f x)"

text \<open>The component after its first rendering, the effect having run.\<close>

definition mounted :: App where
  "mounted = setupRecognition env_with_key App_initial"

text \<open>
  A spoken send, up to the point where it waits for the reply: the microphone button is
  pressed, the recogniser starts, delivers its transcript to the handler it holds, and ends.
\<close>

definition voice_send :: "Env \<Rightarrow> App \<Rightarrow> string \<Rightarrow> string \<Rightarrow> nat \<Rightarrow> thrown + App" where
  "voice_send env s transcript uuid now =
     and_then (toggleRecording env s) (\<lambda>s1.
       case recognitionRef s1 of
         None \<Rightarrow> Inr s1
       | Some r \<Rightarrow>
           and_then (handleSendMessage_call env (onresult_messages r) (recognition_onstart s1)
                       transcript [] uuid now)
             (\<lambda>(s2, out). Inr (recognition_onend s2)))"

text \<open>
  The reply to a spoken send arrives: the message is appended and flagged, and its speech
  is requested.
\<close>

definition voice_reply :: "Env \<Rightarrow> App \<Rightarrow> string \<Rightarrow> string \<Rightarrow> nat \<Rightarrow> App" where
  "voice_reply env s aiText uuid now =
     (case playResponseAudio_begin (handleSendMessage_resume s (Inr aiText) uuid now) uuid of
        (s1, None) \<Rightarrow> s1
      | (s1, Some ctx) \<Rightarrow> fst (playResponseAudio_call env s1 aiText ctx))"

text \<open>The audio that the backend of \<^const>\<open>env_with_key\<close> answers with, decoded.\<close>

definition two_silent_frames :: AudioBuffer where
  "two_silent_frames = \<lparr>sampleRate = 24000, channelData = [[Num 0, Num 0]]\<rparr>"

text \<open>
  A spoken send and its reply, on \<^const>\<open>env_with_key\<close>, and the arrival of the speech
  requested for a message. A run is a list of such steps.
\<close>

definition voice_round :: "App \<Rightarrow> string \<Rightarrow> string \<Rightarrow> nat \<Rightarrow> string \<Rightarrow> nat \<Rightarrow> thrown + App" where
  "voice_round s transcript uuid1 now1 uuid2 now2 =
     and_then (voice_send env_with_key s transcript uuid1 now1)
       (\<lambda>s1. Inr (voice_reply env_with_key s1 ''ok'' uuid2 now2))"

definition typed_round :: "App \<Rightarrow> string \<Rightarrow> string \<Rightarrow> nat \<Rightarrow> string \<Rightarrow> nat \<Rightarrow> thrown + App" where
  "typed_round s txt uuid1 now1 uuid2 now2 =
     map_sum (\<lambda>e. e) fst (onSendMessage env_with_key s txt [] uuid1 now1 uuid2 now2)"

definition speech_arrives :: "string \<Rightarrow> App \<Rightarrow> thrown + App" where
  "speech_arrives messageId s =
     Inr (playResponseAudio_resume s (Inr (Some two_silent_frames)) messageId)"

fun steps :: "(App \<Rightarrow> thrown + App) list \<Rightarrow> App \<Rightarrow> thrown + App" where
  "steps [] s = Inr s"
| "steps (f # fs) s = and_then (f s) (steps fs)"

text \<open>
  The states such runs pass through, written out: the component at rest with some
  messages, some source nodes and possibly a recorded handle.
\<close>

definition spoken :: "string \<Rightarrow> string \<Rightarrow> nat \<Rightarrow> Message" where
  "spoken uuid transcript now =
     \<lparr>msg_id = uuid, role = USER, msg_text = transcript, attachments = Some [], timestamp = now,
      isAudioPlaying = None\<rparr>"

definition answer :: "string \<Rightarrow> nat \<Rightarrow> bool option \<Rightarrow> Message" where
  "answer uuid now flag =
     \<lparr>msg_id = uuid, role = MODEL, msg_text = ''ok'', attachments = None, timestamp = now,
      isAudioPlaying = flag\<rparr>"

definition source_of :: "string \<Rightarrow> playback \<Rightarrow> string SourceNode" where
  "source_of messageId p =
     \<lparr>node_buffer = Some two_silent_frames, playback = p, onended = Some messageId\<rparr>"

definition at_rest :: "Message list \<Rightarrow> string SourceNode list \<Rightarrow> nat option \<Rightarrow> App" where
  "at_rest ms ns active =
     \<lparr>messages = ms, isLoading = False, isRecording = False, language = ar,
      audioContextRef = Some (web_audio_context\<lparr>ctx_state := Running\<rparr>),
      activeAudioSourceRef = active,
      recognitionRef = Some \<lparr>continuous = False, interimResults = False, lang = ''ar-EG'',
                             started = False, onresult_messages = []\<rparr>,
      nodes = ns, aiInstance = Some \<lparr>apiKey = ''key''\<rparr>\<rparr>"

text \<open>
  The reply to a first spoken send has arrived and its speech is being synthesised; the
  same with the speech playing.
\<close>

definition first_reply_pending :: App where
  "first_reply_pending = at_rest [spoken ''u1'' ''one'' 1, answer ''a1'' 2 (Some True)] [] None"

definition first_reply_playing :: App where
  "first_reply_playing =
     at_rest [spoken ''u1'' ''one'' 1, answer ''a1'' 2 (Some True)] [source_of ''a1'' Playing] (Some 0)"

text \<open>
  Two spoken sends follow each other before the speech of the first reply arrives; both
  speeches arrive; the \<^verbatim>\<open>ended\<close> event of the first playback, which the second arrival
  stopped, is dispatched. Then a third spoken send follows and its speech arrives.
\<close>

definition second_playback_unrecorded :: "thrown + App" where
  "second_playback_unrecorded =
     steps [\<lambda>s. voice_round s ''one'' ''u1'' 1 ''a1'' 2,
            \<lambda>s. voice_round s ''two'' ''u2'' 3 ''a2'' 4,
            speech_arrives ''a1'',
            speech_arrives ''a2'',
            \<lambda>s. Inr (source_ended 0 s)]
       mounted"

definition overlapping_playbacks :: "thrown + App" where
  "overlapping_playbacks =
     steps [\<lambda>s. voice_round s ''one'' ''u1'' 1 ''a1'' 2,
            \<lambda>s. voice_round s ''two'' ''u2'' 3 ''a2'' 4,
            speech_arrives ''a1'',
            speech_arrives ''a2'',
            \<lambda>s. Inr (source_ended 0 s),
            \<lambda>s. voice_round s ''three'' ''u3'' 5 ''a3'' 6,
            speech_arrives ''a3'']
       mounted"

text \<open>
  The same, except that the first playback is played through just before the second
  speech arrives, its \<^verbatim>\<open>ended\<close> event being dispatched just after.
\<close>

definition overlapping_playbacks_late_event :: "thrown + App" where
  "overlapping_playbacks_late_event =
     steps [\<lambda>s. voice_round s ''one'' ''u1'' 1 ''a1'' 2,
            \<lambda>s. voice_round s ''two'' ''u2'' 3 ''a2'' 4,
            speech_arrives ''a1'',
            \<lambda>s. Inr (source_played_through 0 s),
            speech_arrives ''a2'',
            \<lambda>s. Inr (source_ended 0 s),
            \<lambda>s. voice_round s ''three'' ''u3'' 5 ''a3'' 6,
            speech_arrives ''a3'']
       mounted"

text \<open>A number of typed sends with their replies, one after the other.\<close>

fun typed_rounds :: "nat \<Rightarrow> App \<Rightarrow> thrown + App" where
  "typed_rounds 0 s = Inr s"
| "typed_rounds (Suc n) s =
     and_then (typed_rounds n s)
       (\<lambda>s1. typed_round s1 ''hi'' (CHR ''u'' # replicate n (CHR ''x'')) (2 * n + 1)
                (CHR ''a'' # replicate n (CHR ''x'')) (2 * n + 2))"

text \<open>
  A deployment whose backend answers every chat with the empty text and every speech
  request without audio, and a platform without speech recognition.
\<close>

definition env_silent :: Env where
  "env_silent = env_with_key\<lparr>sendMessage := (\<lambda>request. Inr (Some [])),
                             generateContent := (\<lambda>request. Inr None)\<rparr>"

definition env_without_recognition :: Env where
  "env_without_recognition = env_with_key\<lparr>webkitSpeechRecognition := False\<rparr>"

section \<open>The decoder\<close>

lemma length_int16_view: "length (int16_view bs) = length bs div 2"
  by (induction bs rule: int16_view.induct) auto














text \<open>
  What the decoder raises comes from the view or from the platform; on a Web Audio
  context the empty byte sequence gets no buffer whatever the rate and the channel count.
\<close>

lemma decodeAudioData_odd_length:
  "odd (length data) \<Longrightarrow> \<exists>e. decodeAudioData data ctx rate numChannels = Inl e"
  by (simp add: decodeAudioData_def Int16Array_def)

lemma decodeAudioData_refused:
  "\<not> odd (length data) \<Longrightarrow>
   createBuffer ctx numChannels (frameCount_of (length data div 2) numChannels) rate = Inl e \<Longrightarrow>
   decodeAudioData data ctx rate numChannels = Inl e"
  by (simp add: decodeAudioData_def Int16Array_def length_int16_view)

lemma decodeAudioData_empty_web_audio:
  "\<exists>e. decodeAudioData [] web_audio_context rate numChannels = Inl e"
  by (simp add: decodeAudioData_def Int16Array_def web_audio_context_def web_audio_createBuffer_def
      frameCount_of_def)

section \<open>The playback controller\<close>

lemma playAudioBuffer_result:
  "playAudioBuffer buffer cb ns =
     Inr (length ns, ns @ [\<lparr>node_buffer = Some buffer, playback = Playing, onended = cb\<rparr>])"
  by (simp add: playAudioBuffer_def createBufferSource_def source_start_def)

lemma handle_stop_eq:
  "handle_stop h ns =
     Inr (if h < length ns \<and> playback (ns ! h) = Playing
          then ns[h := (ns ! h)\<lparr>playback := Stopped\<rparr>] else ns)"
  by (auto simp: handle_stop_def source_stop_def split: playback.splits)

lemma playback_step_once:
  assumes "callback_once h cb w"
  shows "\<exists>w'. playback_step h ev w = Inr w' \<and> callback_once h cb w'"
proof (cases w)
  case (Pair ns invoked)
  show ?thesis
  proof (cases ev)
    case CallStop
    with assms Pair show ?thesis
      by (auto simp: callback_once_def handle_stop_eq)
  next
    case BufferPlayedThrough
    with assms Pair show ?thesis
      by (auto simp: callback_once_def played_through_def)
  next
    case DispatchEnded
    with assms Pair show ?thesis
      by (auto simp: callback_once_def dispatch_ended_def)
  qed
qed

lemma playback_run_once:
  "callback_once h cb w \<Longrightarrow> \<exists>w'. playback_run h evs w = Inr w' \<and> callback_once h cb w'"
proof (induction evs arbitrary: w)
  case Nil
  then show ?case by simp
next
  case (Cons ev evs)
  from playback_step_once[OF Cons.prems, of ev] obtain w1 where
    "playback_step h ev w = Inr w1" "callback_once h cb w1" by blast
  with Cons.IH[of w1] show ?case by simp
qed

text \<open>Once the event has been dispatched, nothing invokes the callback again.\<close>

lemma playback_step_ended:
  assumes "h < length ns" "playback (ns ! h) = Ended"
  shows "\<exists>ns'. playback_step h ev (ns, invoked) = Inr (ns', invoked) \<and>
           h < length ns' \<and> playback (ns' ! h) = Ended"
  using assms
  by (cases ev) (auto simp: handle_stop_eq played_through_def dispatch_ended_def)

lemma playback_run_ended:
  "h < length ns \<Longrightarrow> playback (ns ! h) = Ended \<Longrightarrow>
   \<exists>ns'. playback_run h evs (ns, invoked) = Inr (ns', invoked)"
proof (induction evs arbitrary: ns)
  case Nil
  then show ?case by simp
next
  case (Cons ev evs)
  from playback_step_ended[OF Cons.prems, of ev invoked] obtain ns1 where
    "playback_step h ev (ns, invoked) = Inr (ns1, invoked)"
    "h < length ns1" "playback (ns1 ! h) = Ended" by blast
  with Cons.IH[of ns1] show ?case by simp
qed

text \<open>
  Claim C6. \<^const>\<open>playAudioBuffer\<close> returns a handle, and from then on, whatever the order
  of calls of \<^verbatim>\<open>stop()\<close>, of the buffer being played through and of dispatches of the
  \<^verbatim>\<open>ended\<close> event: no call raises, and the completion callback has been invoked at
  most once. Two calls of \<^verbatim>\<open>stop()\<close> raise nothing and invoke nothing themselves. After the
  buffer is played through and the event dispatched, the callback has been invoked exactly
  once, whatever follows, calls of \<^verbatim>\<open>stop()\<close> included.
\<close>

theorem playback_handle_idempotent:
  "\<exists>h ns1. playAudioBuffer buffer (Some cb) ns = Inr (h, ns1) \<and>
     (\<forall>evs. \<exists>ns' invoked. playback_run h evs (ns1, []) = Inr (ns', invoked) \<and>
                (invoked = [] \<or> invoked = [cb])) \<and>
     (\<exists>ns'. playback_run h [CallStop, CallStop] (ns1, []) = Inr (ns', [])) \<and>
     (\<forall>evs. \<exists>ns'. playback_run h (BufferPlayedThrough # DispatchEnded # evs) (ns1, []) =
                Inr (ns', [cb]))"
proof -
  let ?h = "length ns"
  let ?n = "\<lparr>node_buffer = Some buffer, playback = Playing, onended = Some cb\<rparr>"
  let ?ns1 = "ns @ [?n]"
  have start: "callback_once ?h cb (?ns1, [])"
    by (simp add: callback_once_def)
  have any: "\<exists>ns' invoked. playback_run ?h evs (?ns1, []) = Inr (ns', invoked) \<and>
                (invoked = [] \<or> invoked = [cb])" for evs
    using playback_run_once[OF start, of evs] by (auto simp: callback_once_def)
  have twice: "\<exists>ns'. playback_run ?h [CallStop, CallStop] (?ns1, []) = Inr (ns', [])"
    by (simp add: handle_stop_eq)
  have natural: "\<exists>ns'. playback_run ?h (BufferPlayedThrough # DispatchEnded # evs) (?ns1, []) =
                Inr (ns', [cb])" for evs
  proof -
    have "playback_run ?h (BufferPlayedThrough # DispatchEnded # evs) (?ns1, []) =
          playback_run ?h evs (ns @ [?n\<lparr>playback := Ended\<rparr>], [cb])"
      by (simp add: played_through_def dispatch_ended_def)
    moreover have "\<exists>ns'. playback_run ?h evs (ns @ [?n\<lparr>playback := Ended\<rparr>], [cb]) = Inr (ns', [cb])"
      by (rule playback_run_ended) simp_all
    ultimately show ?thesis by simp
  qed
  show ?thesis
    using any twice natural by (simp add: playAudioBuffer_result)
qed

section \<open>The service\<close>

lemma API_KEY_NOTICE_nonempty: "API_KEY_NOTICE \<noteq> []"
  by (simp add: API_KEY_NOTICE_def)

lemma CONNECTION_ERROR_nonempty: "CONNECTION_ERROR \<noteq> []"
  by (simp add: CONNECTION_ERROR_def)

lemma EMPTY_REPLY_FALLBACK_nonempty: "EMPTY_REPLY_FALLBACK \<noteq> []"
  by (simp add: EMPTY_REPLY_FALLBACK_def)

lemma text_error_reply_cases:
  "text_error_reply e = API_KEY_NOTICE \<or> text_error_reply e = CONNECTION_ERROR"
  by (simp add: text_error_reply_def)

lemma text_error_reply_nonempty: "text_error_reply e \<noteq> []"
  using text_error_reply_cases[of e] API_KEY_NOTICE_nonempty CONNECTION_ERROR_nonempty by auto

lemma text_error_reply_missing_key: "text_error_reply (Error ''API_KEY_MISSING'') = API_KEY_NOTICE"
  by (simp add: text_error_reply_def Error_def)

lemma getAiClient_missing_key:
  assumes "key = None \<or> key = Some []"
  shows "getAiClient key None = Inl (Error ''API_KEY_MISSING'')"
  using assms by (auto simp: getAiClient_def)

text \<open>Without a key the service answers with the notice and sends nothing.\<close>

lemma generateTextResponse_missing_key:
  assumes "API_KEY env = None \<or> API_KEY env = Some []"
  shows "generateTextResponse env None msg atts hist =
           \<lparr>returned = Inr API_KEY_NOTICE, chat_requests = [], speech_requests = [],
            aiInstance_after = None\<rparr>"
  using getAiClient_missing_key[OF assms]
  by (simp add: generateTextResponse_def text_error_reply_missing_key)

text \<open>What \<^const>\<open>generateTextResponse\<close> returns, by what it sent and what came back.\<close>

lemma generateTextResponse_returned:
  "\<exists>t. returned (generateTextResponse env ai msg atts hist) = Inr t \<and> t \<noteq> [] \<and>
     (case chat_requests (generateTextResponse env ai msg atts hist) of
        [] \<Rightarrow> t = API_KEY_NOTICE \<or> t = CONNECTION_ERROR
      | request # _ \<Rightarrow>
          (case sendMessage env request of
             Inl error \<Rightarrow> t = API_KEY_NOTICE \<or> t = CONNECTION_ERROR
           | Inr None \<Rightarrow> t = EMPTY_REPLY_FALLBACK
           | Inr (Some reply) \<Rightarrow> t = (if reply = [] then EMPTY_REPLY_FALLBACK else reply)))"
  using text_error_reply_cases text_error_reply_nonempty EMPTY_REPLY_FALLBACK_nonempty
  by (auto simp: generateTextResponse_def Let_def split: sum.splits option.splits)

text \<open>
  With a client and readable attachments, one request goes out; its history is the last
  ten messages of the history handed in, in their order.
\<close>

lemma generateTextResponse_request:
  assumes "getAiClient (API_KEY env) ai = Inr client"
    and "attachment_parts atts (if msg \<noteq> [] then [TextPart msg] else []) = Inr ps"
  shows "chat_requests (generateTextResponse env ai msg atts hist) =
           [\<lparr>chat_model = ''gemini-2.5-flash'', systemInstruction = SYSTEM_INSTRUCTION,
             history = map to_content (slice_last 10 hist), chat_message = ps\<rparr>]"
    and "returned (generateTextResponse env ai msg atts hist) =
           (case sendMessage env \<lparr>chat_model = ''gemini-2.5-flash'', systemInstruction = SYSTEM_INSTRUCTION,
                                  history = map to_content (slice_last 10 hist), chat_message = ps\<rparr> of
              Inl error \<Rightarrow> Inr (text_error_reply error)
            | Inr None \<Rightarrow> Inr EMPTY_REPLY_FALLBACK
            | Inr (Some t) \<Rightarrow> Inr (if t = [] then EMPTY_REPLY_FALLBACK else t))"
  using assms by (simp_all add: generateTextResponse_def Let_def)

lemma slice_last_length: "length (slice_last k xs) = min (length xs) k"
  by (simp add: slice_last_def)

lemma slice_last_nth:
  "i < min (length xs) k \<Longrightarrow> slice_last k xs ! i = xs ! (length xs - min (length xs) k + i)"
  by (auto simp: slice_last_def min_def)

lemma generateSpeech_no_audio:
  assumes "\<forall>request. generateContent env request = Inr None \<or> generateContent env request = Inr (Some [])"
  shows "returned (generateSpeech env ai t ctx) = Inr None"
proof (cases "getAiClient (API_KEY env) ai")
  case (Inl e)
  then show ?thesis by (simp add: generateSpeech_def)
next
  case (Inr c)
  let ?request = "\<lparr>speech_model = ''gemini-2.5-flash-preview-tts'', contents = [TextPart t],
                    voiceName = ''Kore''\<rparr>"
  from assms have "generateContent env ?request = Inr None \<or> generateContent env ?request = Inr (Some [])"
    by blast
  with Inr show ?thesis by (auto simp: generateSpeech_def Let_def)
qed

text \<open>The service on \<^const>\<open>env_with_key\<close>.\<close>

lemma env_with_key_fields [simp]:
  "API_KEY env_with_key = Some ''key''"
  "sendMessage env_with_key request = Inr (Some ''ok'')"
  "generateContent env_with_key speech = Inr (Some ''AAAAAA=='')"
  "atob env_with_key ''AAAAAA=='' = Inr [0, 0, 0, 0]"
  "webkitSpeechRecognition env_with_key"
  "new_AudioContext env_with_key = web_audio_context"
  by (simp_all add: env_with_key_def)

lemma env_with_key_reply:
  "generateTextResponse env_with_key ai msg [] hist =
     \<lparr>returned = Inr ''ok'',
      chat_requests = [\<lparr>chat_model = ''gemini-2.5-flash'', systemInstruction = SYSTEM_INSTRUCTION,
                        history = map to_content (slice_last 10 hist),
                        chat_message = (if msg \<noteq> [] then [TextPart msg] else [])\<rparr>],
      speech_requests = [],
      aiInstance_after = Some (case ai of None \<Rightarrow> \<lparr>apiKey = ''key''\<rparr> | Some c \<Rightarrow> c)\<rparr>"
  by (simp add: generateTextResponse_def getAiClient_def Let_def split: option.splits)

lemma decode_four_zero_bytes:
  assumes "createBuffer ctx = web_audio_createBuffer"
  shows "decodeAudioData [0, 0, 0, 0] ctx 24000 1 = Inr two_silent_frames"
proof -
  have r2: "\<And>x :: js_number. replicate 2 x = [x, x]"
    by (simp add: numeral_2_eq_2)
  show ?thesis
    using assms
    by (simp add: decodeAudioData_def Int16Array_def web_audio_createBuffer_def
        frameCount_of_def fill_channel_def frame_indices_def pcm_sample_def s16le_def upt_rec
        word_cat_eq r2 two_silent_frames_def)
qed

lemma env_with_key_speech:
  assumes "createBuffer ctx = web_audio_createBuffer"
  shows "generateSpeech env_with_key ai t ctx =
     \<lparr>returned = Inr (Some two_silent_frames), chat_requests = [],
      speech_requests = [\<lparr>speech_model = ''gemini-2.5-flash-preview-tts'', contents = [TextPart t],
                          voiceName = ''Kore''\<rparr>],
      aiInstance_after = Some (case ai of None \<Rightarrow> \<lparr>apiKey = ''key''\<rparr> | Some c \<Rightarrow> c)\<rparr>"
  using decode_four_zero_bytes[OF assms]
  by (simp add: generateSpeech_def getAiClient_def Let_def decodeBase64_def split: option.splits)

section \<open>The application component\<close>

subsection \<open>The handlers, step by step\<close>

lemma initAudioContext_fields [simp]:
  "messages (initAudioContext env s) = messages s"
  "isLoading (initAudioContext env s) = isLoading s"
  "isRecording (initAudioContext env s) = isRecording s"
  "language (initAudioContext env s) = language s"
  "activeAudioSourceRef (initAudioContext env s) = activeAudioSourceRef s"
  "recognitionRef (initAudioContext env s) = recognitionRef s"
  "nodes (initAudioContext env s) = nodes s"
  "aiInstance (initAudioContext env s) = aiInstance s"
  by (simp_all add: initAudioContext_def Let_def)

lemma initAudioContext_some [simp]: "\<exists>ctx. audioContextRef (initAudioContext env s) = Some ctx"
  by (simp add: initAudioContext_def Let_def)

lemma speaking_clear_audio_flags: "m \<in> set (clear_audio_flags ms) \<Longrightarrow> \<not> speaking m"
  by (auto simp: clear_audio_flags_def speaking_def)

lemma not_playing_after_stop:
  "h \<notin> set (filter (\<lambda>k. playback ((if h < length ns \<and> playback (ns ! h) = Playing
          then ns[h := (ns ! h)\<lparr>playback := Stopped\<rparr>] else ns) ! k) = Playing) [0..<length ns])"
  by auto

lemma handleSendMessage_begin_kept:
  "\<exists>s'. handleSendMessage_begin env s msg atts uuid now = Inr s' \<and> isLoading s' \<and>
         aiInstance s' = aiInstance s \<and> activeAudioSourceRef s' = None \<and>
         audioContextRef s' \<noteq> None \<and> length (nodes s') = length (nodes s) \<and>
         recognitionRef s' = recognitionRef s \<and> length (messages s') = Suc (length (messages s))"
  by (simp add: handleSendMessage_begin_def Let_def handle_stop_eq clear_audio_flags_def
      split: option.splits)

lemma handleSendMessage_resume_Inr:
  "handleSendMessage_resume s (Inr t) uuid now =
     s\<lparr>messages := messages s @ [\<lparr>msg_id = uuid, role = MODEL, msg_text = t, attachments = None,
                                  timestamp = now, isAudioPlaying = None\<rparr>],
       isLoading := False\<rparr>"
  by (simp add: handleSendMessage_resume_def)

lemma handleSendMessage_resume_idle: "\<not> isLoading (handleSendMessage_resume s r uuid now)"
  by (simp add: handleSendMessage_resume_def split: sum.splits)

lemma playResponseAudio_resume_fields:
  "isLoading (playResponseAudio_resume s b mid) = isLoading s"
  "recognitionRef (playResponseAudio_resume s b mid) = recognitionRef s"
  "length (messages (playResponseAudio_resume s b mid)) = length (messages s)"
  by (simp_all add: playResponseAudio_resume_def handle_stop_eq playAudioBuffer_result
      set_audio_flag_def split: sum.splits option.splits)

lemma playResponseAudio_fields:
  "isLoading (fst (playResponseAudio env s t mid)) = isLoading s"
  "recognitionRef (fst (playResponseAudio env s t mid)) = recognitionRef s"
  "length (messages (fst (playResponseAudio env s t mid))) = length (messages s)"
  by (simp_all add: playResponseAudio_def playResponseAudio_begin_def playResponseAudio_call_def
      playResponseAudio_resume_fields set_audio_flag_def Let_def split: option.splits prod.splits)

text \<open>
  A send as a whole: it never raises, it ends idle, the one call of the service is made
  with the history handed in, and the recogniser is left alone.
\<close>

lemma handleSendMessage_whole:
  "\<exists>s' spoken. handleSendMessage env hist s msg atts voice uuid1 now1 uuid2 now2 =
       Inr (s', chat_requests (generateTextResponse env (aiInstance s) msg atts hist), spoken) \<and>
       \<not> isLoading s' \<and> recognitionRef s' = recognitionRef s \<and>
       length (messages s') = length (messages s) + 2"
proof -
  obtain s1 where s1: "handleSendMessage_begin env s msg atts uuid1 now1 = Inr s1"
    "aiInstance s1 = aiInstance s" "recognitionRef s1 = recognitionRef s"
    "length (messages s1) = Suc (length (messages s))"
    using handleSendMessage_begin_kept by blast
  define out where "out = generateTextResponse env (aiInstance s) msg atts hist"
  obtain t where t: "returned out = Inr t"
    unfolding out_def using generateTextResponse_returned by blast
  define s2 where "s2 = handleSendMessage_resume (s1\<lparr>aiInstance := aiInstance_after out\<rparr>) (Inr t) uuid2 now2"
  have s2: "\<not> isLoading s2" "recognitionRef s2 = recognitionRef s"
    "length (messages s2) = length (messages s) + 2"
    by (simp_all add: s2_def handleSendMessage_resume_Inr s1)
  obtain s3 sent where p: "playResponseAudio env s2 t uuid2 = (s3, sent)"
    by (cases "playResponseAudio env s2 t uuid2") blast
  have s3: "\<not> isLoading s3" "recognitionRef s3 = recognitionRef s"
    "length (messages s3) = length (messages s) + 2"
    using playResponseAudio_fields[of env s2 t uuid2] p s2 by simp_all
  have call: "handleSendMessage_call env hist s msg atts uuid1 now1 =
      Inr (s1\<lparr>aiInstance := aiInstance_after out\<rparr>, out)"
    by (simp add: handleSendMessage_call_def s1 out_def Let_def)
  show ?thesis
  proof (cases voice)
    case True
    with call t p s3 show ?thesis
      by (simp add: handleSendMessage_def s2_def[symmetric] out_def[symmetric])
  next
    case False
    with call t s2 show ?thesis
      by (simp add: handleSendMessage_def s2_def[symmetric] out_def[symmetric])
  qed
qed

subsection \<open>Runs\<close>

lemma mounted_eq:
  "mounted = App_initial\<lparr>recognitionRef :=
     Some \<lparr>continuous = False, interimResults = False, lang = ''ar-EG'', started = False,
           onresult_messages = []\<rparr>\<rparr>"
  by (simp add: mounted_def setupRecognition_def App_initial_def)

lemmas round_defs =
  voice_round_def voice_send_def and_then_def toggleRecording_def initAudioContext_def
  web_audio_context_def recognition_start_def handleSendMessage_call_def
  handleSendMessage_begin_def env_with_key_reply recognition_onstart_def recognition_onend_def
  voice_reply_def playResponseAudio_begin_def handleSendMessage_resume_def
  playResponseAudio_call_def env_with_key_speech Let_def

lemma voice_round_mounted:
  "voice_round mounted transcript uuid1 now1 uuid2 now2 =
     Inr (at_rest (set_audio_flag uuid2 True [spoken uuid1 transcript now1, answer uuid2 now2 None])
            [] None)"
  by (simp add: round_defs mounted_eq App_initial_def at_rest_def spoken_def answer_def)

lemma first_reply_pending_reached:
  "voice_round mounted ''one'' ''u1'' 1 ''a1'' 2 = Inr first_reply_pending"
  by (simp add: voice_round_mounted first_reply_pending_def set_audio_flag_def spoken_def answer_def)

lemma voice_round_at_rest:
  "voice_round (at_rest ms ns None) transcript uuid1 now1 uuid2 now2 =
     Inr (at_rest (set_audio_flag uuid2 True (ms @ [spoken uuid1 transcript now1, answer uuid2 now2 None]))
            ns None)"
  by (simp add: round_defs at_rest_def spoken_def answer_def)

lemma speech_arrives_at_rest:
  "speech_arrives messageId (at_rest ms ns active) =
     Inr (at_rest ms
            ((case active of
                None \<Rightarrow> ns
              | Some h \<Rightarrow> if h < length ns \<and> playback (ns ! h) = Playing
                          then ns[h := (ns ! h)\<lparr>playback := Stopped\<rparr>] else ns)
             @ [source_of messageId Playing])
            (Some (length ns)))"
  by (cases active)
     (simp_all add: speech_arrives_def playResponseAudio_resume_def at_rest_def handle_stop_eq
        playAudioBuffer_result source_of_def)

lemma source_ended_at_rest:
  assumes "h < length ns" "playback (ns ! h) = Stopped \<or> playback (ns ! h) = PlayedThrough"
    "onended (ns ! h) = Some messageId"
  shows "source_ended h (at_rest ms ns active) =
     at_rest (set_audio_flag messageId False ms) (ns[h := (ns ! h)\<lparr>playback := Ended\<rparr>]) None"
  using assms by (auto simp: source_ended_def dispatch_ended_def onEnded_def at_rest_def)

lemma first_reply_playing_reached:
  "steps [\<lambda>s. voice_round s ''one'' ''u1'' 1 ''a1'' 2, speech_arrives ''a1''] mounted =
     Inr first_reply_playing"
  by (simp add: and_then_def voice_round_mounted speech_arrives_at_rest first_reply_playing_def
      set_audio_flag_def spoken_def answer_def)

lemma source_played_through_at_rest:
  "source_played_through h (at_rest ms ns active) = at_rest ms (played_through h ns) active"
  by (simp add: source_played_through_def at_rest_def)

text \<open>
  What the code does for the one-playback rule: the arrival of speech stops the playback
  whose handle is recorded before it starts the new one and records it.
\<close>

lemma playResponseAudio_resume_stops_recorded:
  assumes "activeAudioSourceRef s = Some h" "h < length (nodes s)"
  shows "playback (nodes (playResponseAudio_resume s (Inr (Some buffer)) mid) ! h) \<noteq> Playing \<and>
         activeAudioSourceRef (playResponseAudio_resume s (Inr (Some buffer)) mid) = Some (length (nodes s)) \<and>
         playback (nodes (playResponseAudio_resume s (Inr (Some buffer)) mid) ! length (nodes s)) = Playing"
  using assms
  by (simp add: playResponseAudio_resume_def handle_stop_eq playAudioBuffer_result nth_append)

text \<open>
  Claim C8, the runs that break it. The second arrival of speech stops the first playback
  and records the second; the \<^verbatim>\<open>ended\<close> event of the first playback then runs its
  callback, which clears the record although it holds the second handle. From then on
  nothing stops the second playback: the microphone button and the third send find no
  handle, and the third playback starts while the second still plays. It makes no
  difference whether the first playback was stopped by the second arrival or was played
  through just before it.
\<close>

theorem overlapping_playbacks_run:
  "overlapping_playbacks =
     Inr (at_rest [spoken ''u1'' ''one'' 1, answer ''a1'' 2 (Some False),
                   spoken ''u2'' ''two'' 3, answer ''a2'' 4 (Some True),
                   spoken ''u3'' ''three'' 5, answer ''a3'' 6 (Some True)]
            [source_of ''a1'' Ended, source_of ''a2'' Playing, source_of ''a3'' Playing]
            (Some 2)) \<and>
   map_sum (\<lambda>e. e) playing_handles overlapping_playbacks = Inr [1, 2] \<and>
   map_sum (\<lambda>e. e) playing_handles overlapping_playbacks_late_event = Inr [1, 2]"
proof -
  have run: "overlapping_playbacks =
     Inr (at_rest [spoken ''u1'' ''one'' 1, answer ''a1'' 2 (Some False),
                   spoken ''u2'' ''two'' 3, answer ''a2'' 4 (Some True),
                   spoken ''u3'' ''three'' 5, answer ''a3'' 6 (Some True)]
            [source_of ''a1'' Ended, source_of ''a2'' Playing, source_of ''a3'' Playing]
            (Some 2))"
    by (simp add: overlapping_playbacks_def and_then_def voice_round_mounted
        voice_round_at_rest speech_arrives_at_rest source_ended_at_rest
        set_audio_flag_def spoken_def answer_def source_of_def numeral_2_eq_2)
  have late: "overlapping_playbacks_late_event =
     Inr (at_rest [spoken ''u1'' ''one'' 1, answer ''a1'' 2 (Some False),
                   spoken ''u2'' ''two'' 3, answer ''a2'' 4 (Some True),
                   spoken ''u3'' ''three'' 5, answer ''a3'' 6 (Some True)]
            [source_of ''a1'' Ended, source_of ''a2'' Playing, source_of ''a3'' Playing]
            (Some 2))"
    by (simp add: overlapping_playbacks_late_event_def and_then_def voice_round_mounted
        voice_round_at_rest speech_arrives_at_rest source_ended_at_rest
        source_played_through_at_rest played_through_def
        set_audio_flag_def spoken_def answer_def source_of_def numeral_2_eq_2)
  have playing: "map_sum (\<lambda>e. e) playing_handles
      (Inr (at_rest ms [source_of ''a1'' Ended, source_of ''a2'' Playing, source_of ''a3'' Playing] active)) =
      Inr [1, 2]" for ms active
    by (simp add: playing_handles_def at_rest_def source_of_def upt_rec)
  show ?thesis
    unfolding run late using playing by simp
qed

subsection \<open>Interruption\<close>

text \<open>
  What the beginning of a send does, by the reference it finds: with a handle in it, the
  playback of that handle is stopped, the reference emptied and the flag of every message
  cleared; with none in it, the source nodes and the earlier messages stay as they are.
\<close>

lemma handleSendMessage_begin_effect:
  "\<exists>s'. handleSendMessage_begin env s msg atts uuid now = Inr s' \<and>
         activeAudioSourceRef s' = None \<and> isLoading s' \<and>
         (case activeAudioSourceRef s of
            Some h \<Rightarrow> h \<notin> set (playing_handles s') \<and> (\<forall>m \<in> set (messages s'). \<not> speaking m)
          | None \<Rightarrow>
              nodes s' = nodes s \<and>
              messages s' = messages s @
                [\<lparr>msg_id = uuid, role = USER, msg_text = msg, attachments = Some atts,
                  timestamp = now, isAudioPlaying = None\<rparr>])"
proof (cases "activeAudioSourceRef s")
  case None
  then show ?thesis
    by (simp add: handleSendMessage_begin_def Let_def)
next
  case (Some h)
  then show ?thesis
    using not_playing_after_stop[of h "nodes s"]
    by (auto simp: handleSendMessage_begin_def Let_def handle_stop_eq playing_handles_def
        speaking_def dest: speaking_clear_audio_flags)
qed

text \<open>
  Claim C2, a run that breaks it. After two spoken sends whose speeches both arrive, the
  \<^verbatim>\<open>ended\<close> event of the first playback runs its callback, which empties the reference
  although it holds the handle of the second playback. The second reply is then flagged
  as speaking and its playback is playing, with no handle recorded. A send made in that
  state finds the reference empty: it stops nothing and clears no flag, so the second
  playback goes on and the second reply stays flagged while the new request is made.
\<close>

theorem send_after_lost_handle:
  "second_playback_unrecorded =
     Inr (at_rest [spoken ''u1'' ''one'' 1, answer ''a1'' 2 (Some False),
                   spoken ''u2'' ''two'' 3, answer ''a2'' 4 (Some True)]
            [source_of ''a1'' Ended, source_of ''a2'' Playing] None) \<and>
   map_sum (\<lambda>e. e)
     (\<lambda>s'. (activeAudioSourceRef s', map playback (nodes s'), map speaking (messages s'), isLoading s'))
     (and_then second_playback_unrecorded
        (\<lambda>s. handleSendMessage_begin env_with_key s ''three'' [] ''u3'' 5)) =
     Inr (None, [Ended, Playing], [False, False, False, True, False], True)"
proof -
  have run: "second_playback_unrecorded =
     Inr (at_rest [spoken ''u1'' ''one'' 1, answer ''a1'' 2 (Some False),
                   spoken ''u2'' ''two'' 3, answer ''a2'' 4 (Some True)]
            [source_of ''a1'' Ended, source_of ''a2'' Playing] None)"
    by (simp add: second_playback_unrecorded_def and_then_def voice_round_mounted
        voice_round_at_rest speech_arrives_at_rest source_ended_at_rest
        set_audio_flag_def spoken_def answer_def source_of_def)
  have send: "map_sum (\<lambda>e. e)
     (\<lambda>s'. (activeAudioSourceRef s', map playback (nodes s'), map speaking (messages s'), isLoading s'))
     (handleSendMessage_begin env_with_key
        (at_rest [spoken ''u1'' ''one'' 1, answer ''a1'' 2 (Some False),
                  spoken ''u2'' ''two'' 3, answer ''a2'' 4 (Some True)]
           [source_of ''a1'' Ended, source_of ''a2'' Playing] None)
        ''three'' [] ''u3'' 5) =
     Inr (None, [Ended, Playing], [False, False, False, True, False], True)"
    by (simp add: at_rest_def spoken_def answer_def source_of_def handleSendMessage_begin_def
        initAudioContext_def speaking_def Let_def)
  show ?thesis
    unfolding run using send by (simp add: and_then_def)
qed

text \<open>
  A send made while the speech of a reply is still being synthesised finds the reference
  empty as well: the reply is flagged from the moment its speech is requested, before any
  handle exists, and it stays flagged.
\<close>

lemma send_while_speech_pending:
  "voice_round mounted ''one'' ''u1'' 1 ''a1'' 2 = Inr first_reply_pending \<and>
   map speaking (messages first_reply_pending) = [False, True] \<and>
   map_sum (\<lambda>e. e) (\<lambda>s'. map speaking (messages s'))
     (handleSendMessage_begin env_with_key first_reply_pending ''two'' [] ''u2'' 3) =
     Inr [False, True, False]"
proof -
  have "map speaking (messages first_reply_pending) = [False, True] \<and>
     map_sum (\<lambda>e. e) (\<lambda>s'. map speaking (messages s'))
       (handleSendMessage_begin env_with_key first_reply_pending ''two'' [] ''u2'' 3) =
       Inr [False, True, False]"
    by (simp add: first_reply_pending_def at_rest_def spoken_def answer_def
        handleSendMessage_begin_def initAudioContext_def speaking_def Let_def)
  with first_reply_pending_reached show ?thesis
    by (rule conjI)
qed

subsection \<open>Failures of the backend\<close>

text \<open>
  Claim C4. With no key in the environment and no client made yet, a send that does not
  ask for voice appends an assistant message whose text is the missing-key notice, sends
  nothing to the backend, and leaves the session idle.
\<close>

theorem missing_credential_notice:
  assumes nokey: "API_KEY env = None \<or> API_KEY env = Some []" and fresh: "aiInstance s = None"
  shows "\<exists>s'. handleSendMessage env hist s msg atts False uuid1 now1 uuid2 now2 = Inr (s', [], []) \<and>
           last (messages s') =
             \<lparr>msg_id = uuid2, role = MODEL, msg_text = API_KEY_NOTICE, attachments = None,
              timestamp = now2, isAudioPlaying = None\<rparr> \<and>
           \<not> isLoading s' \<and> aiInstance s' = None"
proof -
  obtain s1 where s1: "handleSendMessage_begin env s msg atts uuid1 now1 = Inr s1"
    "aiInstance s1 = aiInstance s"
    using handleSendMessage_begin_kept by blast
  show ?thesis
    using s1 fresh generateTextResponse_missing_key [OF nokey, of msg atts hist]
    by (simp add: handleSendMessage_def handleSendMessage_call_def handleSendMessage_resume_Inr)
qed

text \<open>The send of the claim, on a deployment without a key, right after the start.\<close>

theorem missing_credential_notice_witness:
  "(API_KEY env_without_key = None \<or> API_KEY env_without_key = Some []) \<and>
   aiInstance App_initial = None \<and>
   map_sum (\<lambda>e. e) (\<lambda>(s', sent, spoken). (map msg_text (messages s'), isLoading s', sent, spoken))
     (handleSendMessage env_without_key [] App_initial ''hello'' [] False ''u1'' 1 ''a1'' 2) =
     Inr ([''hello'', API_KEY_NOTICE], False, [], [])"
proof -
  have k: "API_KEY env_without_key = None \<or> API_KEY env_without_key = Some []"
    by (simp add: env_without_key_def)
  have a: "aiInstance App_initial = None"
    by (simp add: App_initial_def)
  from missing_credential_notice[OF k a, of "[]" "''hello''" "[]" "''u1''" 1 "''a1''" 2]
  obtain s' where s': "handleSendMessage env_without_key [] App_initial ''hello'' [] False ''u1'' 1 ''a1'' 2 =
      Inr (s', [], [])" "\<not> isLoading s'" by blast
  have run: "map_sum (\<lambda>e. e) (\<lambda>(s', sent, spoken). (map msg_text (messages s'), isLoading s', sent, spoken))
     (handleSendMessage env_without_key [] App_initial ''hello'' [] False ''u1'' 1 ''a1'' 2) =
     Inr ([''hello'', API_KEY_NOTICE], False, [], [])"
    using generateTextResponse_missing_key[OF k, of "''hello''" "[]" "[]"]
    by (simp add: handleSendMessage_def handleSendMessage_call_def handleSendMessage_begin_def
        handleSendMessage_resume_Inr initAudioContext_def App_initial_def Let_def)
  show ?thesis
    using k a s' run by simp
qed

text \<open>
  Claim C5. Whatever the backend does, \<^const>\<open>generateTextResponse\<close> returns a text and raises
  nothing. The text is not empty; when no request went out, or the request raised, it is
  one of the two bilingual error messages; otherwise it is the reply, or the fallback for
  an empty or absent reply. A send sets the loading flag when it begins; the continuation
  that runs once the service has settled clears it, whatever the service returned; and a
  send as a whole ends with the flag cleared.
\<close>

theorem generateTextResponse_never_raises:
  "(\<exists>t. returned (generateTextResponse env ai msg atts hist) = Inr t \<and> t \<noteq> [] \<and>
      (case chat_requests (generateTextResponse env ai msg atts hist) of
         [] \<Rightarrow> t = API_KEY_NOTICE \<or> t = CONNECTION_ERROR
       | request # _ \<Rightarrow>
           (case sendMessage env request of
              Inl error \<Rightarrow> t = API_KEY_NOTICE \<or> t = CONNECTION_ERROR
            | Inr None \<Rightarrow> t = EMPTY_REPLY_FALLBACK
            | Inr (Some reply) \<Rightarrow> t = (if reply = [] then EMPTY_REPLY_FALLBACK else reply)))) \<and>
   (\<exists>s1. handleSendMessage_begin env s msg atts uuid1 now1 = Inr s1 \<and> isLoading s1) \<and>
   \<not> isLoading (handleSendMessage_resume s2 r uuid2 now2) \<and>
   (\<exists>s' sent spoken. handleSendMessage env hist s msg atts voice uuid1 now1 uuid2 now2 =
       Inr (s', sent, spoken) \<and> \<not> isLoading s')"
proof -
  have "\<exists>s1. handleSendMessage_begin env s msg atts uuid1 now1 = Inr s1 \<and> isLoading s1"
    using handleSendMessage_begin_kept by blast
  moreover have "\<exists>s' sent spoken. handleSendMessage env hist s msg atts voice uuid1 now1 uuid2 now2 =
       Inr (s', sent, spoken) \<and> \<not> isLoading s'"
    using handleSendMessage_whole[of env hist s msg atts voice uuid1 now1 uuid2 now2] by blast
  ultimately show ?thesis
    using generateTextResponse_returned[of env ai msg atts hist]
      handleSendMessage_resume_idle[of s2 r uuid2 now2]
    by blast
qed

text \<open>
  Claim C10. When the call of the backend succeeds with an empty or absent text, the
  service returns the fallback text, which is not empty, and that is the text of the
  message the send appends. Whatever the service returns is not empty and becomes the
  text of the appended message.
\<close>

theorem empty_reply_fallback:
  assumes client: "getAiClient (API_KEY env) ai = Inr c"
    and readable: "attachment_parts atts (if msg \<noteq> [] then [TextPart msg] else []) = Inr ps"
    and empty:
      "sendMessage env \<lparr>chat_model = ''gemini-2.5-flash'', systemInstruction = SYSTEM_INSTRUCTION,
                         history = map to_content (slice_last 10 hist), chat_message = ps\<rparr> = Inr None \<or>
       sendMessage env \<lparr>chat_model = ''gemini-2.5-flash'', systemInstruction = SYSTEM_INSTRUCTION,
                         history = map to_content (slice_last 10 hist), chat_message = ps\<rparr> = Inr (Some [])"
  shows "returned (generateTextResponse env ai msg atts hist) = Inr EMPTY_REPLY_FALLBACK \<and>
         EMPTY_REPLY_FALLBACK \<noteq> [] \<and>
         msg_text (last (messages (handleSendMessage_resume s
            (returned (generateTextResponse env ai msg atts hist)) uuid now))) = EMPTY_REPLY_FALLBACK \<and>
         (\<exists>t. returned (generateTextResponse env' ai' msg' atts' hist') = Inr t \<and> t \<noteq> [] \<and>
              msg_text (last (messages (handleSendMessage_resume s' (Inr t) uuid' now'))) = t)"
proof -
  have ret: "returned (generateTextResponse env ai msg atts hist) = Inr EMPTY_REPLY_FALLBACK"
    using empty generateTextResponse_request(2)[OF client readable, of hist] by auto
  obtain t where "returned (generateTextResponse env' ai' msg' atts' hist') = Inr t" "t \<noteq> []"
    using generateTextResponse_returned by blast
  then show ?thesis
    using ret EMPTY_REPLY_FALLBACK_nonempty by (auto simp: handleSendMessage_resume_Inr)
qed

text \<open>The theorem on a backend that answers with the empty text.\<close>

theorem empty_reply_fallback_witness:
  "getAiClient (API_KEY env_silent) None = Inr \<lparr>apiKey = ''key''\<rparr> \<and>
   attachment_parts [] (if ''hi'' \<noteq> [] then [TextPart ''hi''] else []) = Inr [TextPart ''hi''] \<and>
   sendMessage env_silent \<lparr>chat_model = ''gemini-2.5-flash'', systemInstruction = SYSTEM_INSTRUCTION,
                           history = map to_content (slice_last 10 []), chat_message = [TextPart ''hi'']\<rparr> =
     Inr (Some []) \<and>
   returned (generateTextResponse env_silent None ''hi'' [] []) = Inr EMPTY_REPLY_FALLBACK"
proof -
  have c: "getAiClient (API_KEY env_silent) None = Inr \<lparr>apiKey = ''key''\<rparr>"
    by (simp add: env_silent_def env_with_key_def getAiClient_def)
  have p: "attachment_parts [] (if ''hi'' \<noteq> [] then [TextPart ''hi''] else []) = Inr [TextPart ''hi'']"
    by simp
  have e: "sendMessage env_silent \<lparr>chat_model = ''gemini-2.5-flash'', systemInstruction = SYSTEM_INSTRUCTION,
                           history = map to_content (slice_last 10 []), chat_message = [TextPart ''hi'']\<rparr> =
     Inr (Some [])"
    by (simp add: env_silent_def)
  show ?thesis
    using empty_reply_fallback [OF c p disjI2 [OF e], THEN conjunct1] c p e by simp
qed

subsection \<open>Speech without audio\<close>

lemma set_audio_flag_cleared:
  assumes "m \<in> set (set_audio_flag mid False ms)" and "msg_id m = mid"
  shows "isAudioPlaying m = Some False"
proof -
  from assms(1) obtain x where
    x: "m = (if msg_id x = mid then x\<lparr>isAudioPlaying := Some False\<rparr> else x)"
    unfolding set_audio_flag_def set_map by (rule imageE)
  show ?thesis
  proof (cases "msg_id x = mid")
    case True
    with x show ?thesis by simp
  next
    case False
    with x assms(2) show ?thesis by simp
  qed
qed

lemma set_audio_flag_quiet:
  "\<forall>m \<in> set (set_audio_flag mid False ms). msg_id m = mid \<longrightarrow> isAudioPlaying m = Some False"
  using set_audio_flag_cleared by blast

lemma set_audio_flag_not_speaking:
  "\<forall>m \<in> set (set_audio_flag mid False ms). msg_id m = mid \<longrightarrow> \<not> speaking m"
proof (intro ballI impI)
  fix m
  assume "m \<in> set (set_audio_flag mid False ms)" "msg_id m = mid"
  then have "isAudioPlaying m = Some False"
    by (rule set_audio_flag_cleared)
  then show "\<not> speaking m"
    by (simp add: speaking_def)
qed

lemma last_set_audio_flag:
  "ms \<noteq> [] \<Longrightarrow> msg_id (last ms) = mid \<Longrightarrow>
   last (set_audio_flag mid b ms) = (last ms)\<lparr>isAudioPlaying := Some b\<rparr>"
  by (simp add: set_audio_flag_def last_map)

lemma set_audio_flag_twice:
  "set_audio_flag mid b (set_audio_flag mid c ms) = set_audio_flag mid b ms"
  by (simp add: set_audio_flag_def)

lemma playResponseAudio_resume_no_audio:
  "playResponseAudio_resume s (Inr None) mid = s\<lparr>messages := set_audio_flag mid False (messages s)\<rparr>"
  by (simp add: playResponseAudio_resume_def)

text \<open>
  Claim C7. Let the synthesis backend answer every request without audio data (none, or
  the empty string). Then a voice-mode send raises nothing and ends with the flag of the
  assistant message, the last one, set to false, with no message of that id speaking,
  with no handle recorded and with no source node more than before. The same holds for
  the continuation alone, in whatever state it finds the component when the synthesis
  settles: it creates no node, leaves the recorded handle as it is, and sets the flag of
  its message to false.
\<close>

theorem empty_audio_skips_playback:
  assumes silent: "\<forall>request. generateContent env request = Inr None \<or> generateContent env request = Inr (Some [])"
  shows "(\<exists>s' sent spoken.
            handleSendMessage env hist s msg atts True uuid1 now1 uuid2 now2 = Inr (s', sent, spoken) \<and>
            msg_id (last (messages s')) = uuid2 \<and> role (last (messages s')) = MODEL \<and>
            isAudioPlaying (last (messages s')) = Some False \<and>
            (\<forall>m \<in> set (messages s'). msg_id m = uuid2 \<longrightarrow> \<not> speaking m) \<and>
            activeAudioSourceRef s' = None \<and> length (nodes s') = length (nodes s)) \<and>
         nodes (playResponseAudio_resume s2 (returned (generateSpeech env ai t ctx)) mid) = nodes s2 \<and>
         activeAudioSourceRef (playResponseAudio_resume s2 (returned (generateSpeech env ai t ctx)) mid) =
           activeAudioSourceRef s2 \<and>
         (\<forall>m \<in> set (messages (playResponseAudio_resume s2 (returned (generateSpeech env ai t ctx)) mid)).
             msg_id m = mid \<longrightarrow> isAudioPlaying m = Some False)"
proof -
  have phase: "playResponseAudio_resume s2 (returned (generateSpeech env ai t ctx)) mid =
      s2\<lparr>messages := set_audio_flag mid False (messages s2)\<rparr>" for s2 ai t ctx mid
    by (simp add: generateSpeech_no_audio[OF silent] playResponseAudio_resume_no_audio)
  obtain s1 where s1: "handleSendMessage_begin env s msg atts uuid1 now1 = Inr s1"
    "activeAudioSourceRef s1 = None" "audioContextRef s1 \<noteq> None" "length (nodes s1) = length (nodes s)"
    using handleSendMessage_begin_kept by blast
  then obtain c where c: "audioContextRef s1 = Some c" by blast
  define out where "out = generateTextResponse env (aiInstance s1) msg atts hist"
  obtain r where r: "returned out = Inr r"
    unfolding out_def using generateTextResponse_returned by blast
  define reply where "reply = \<lparr>msg_id = uuid2, role = MODEL, msg_text = r, attachments = None,
                  timestamp = now2, isAudioPlaying = None\<rparr>"
  define sa where "sa = s1\<lparr>aiInstance := aiInstance_after out\<rparr>"
  define sb where "sb = handleSendMessage_resume sa (returned out) uuid2 now2"
  define speech where "speech = generateSpeech env (aiInstance sb) r c"
  define sc where "sc = sb\<lparr>messages := set_audio_flag uuid2 True (messages sb), aiInstance := aiInstance_after speech\<rparr>"
  define sd where "sd = sc\<lparr>messages := set_audio_flag uuid2 False (messages sc)\<rparr>"
  have call: "handleSendMessage_call env hist s msg atts uuid1 now1 = Inr (sa, out)"
    by (simp add: handleSendMessage_call_def s1(1) out_def sa_def Let_def)
  have sb: "sb = sa\<lparr>messages := messages sa @ [reply], isLoading := False\<rparr>"
    by (simp add: sb_def r handleSendMessage_resume_Inr reply_def)
  have ctx: "audioContextRef sb = Some c"
    by (simp add: sb sa_def c)
  have "playResponseAudio_call env (sb\<lparr>messages := set_audio_flag uuid2 True (messages sb)\<rparr>) r c =
      (sc, speech)"
    by (simp add: playResponseAudio_call_def speech_def sc_def Let_def)
  then have play: "playResponseAudio env sb r uuid2 = (sd, speech_requests speech)"
    by (simp add: playResponseAudio_def playResponseAudio_begin_def ctx speech_def phase sd_def)
  have run: "handleSendMessage env hist s msg atts True uuid1 now1 uuid2 now2 =
      Inr (sd, chat_requests out, speech_requests speech)"
    using call play r by (simp add: handleSendMessage_def sb_def)
  have msgs: "messages sd = set_audio_flag uuid2 False (messages s1 @ [reply])"
    by (simp add: sd_def sc_def sb sa_def set_audio_flag_twice)
  have l: "last (messages sd) = reply\<lparr>isAudioPlaying := Some False\<rparr>"
    unfolding msgs by (simp add: last_set_audio_flag reply_def)
  have quiet: "\<forall>m \<in> set (messages sd). msg_id m = uuid2 \<longrightarrow> \<not> speaking m"
    unfolding msgs by (rule set_audio_flag_not_speaking)
  have rest: "activeAudioSourceRef sd = None" "length (nodes sd) = length (nodes s)"
    by (simp_all add: sd_def sc_def sb sa_def s1)
  have first: "\<exists>s' sent spoken.
            handleSendMessage env hist s msg atts True uuid1 now1 uuid2 now2 = Inr (s', sent, spoken) \<and>
            msg_id (last (messages s')) = uuid2 \<and> role (last (messages s')) = MODEL \<and>
            isAudioPlaying (last (messages s')) = Some False \<and>
            (\<forall>m \<in> set (messages s'). msg_id m = uuid2 \<longrightarrow> \<not> speaking m) \<and>
            activeAudioSourceRef s' = None \<and> length (nodes s') = length (nodes s)"
    using run l quiet rest by (simp add: reply_def)
  have second: "\<forall>m \<in> set (messages (playResponseAudio_resume s2 (returned (generateSpeech env ai t ctx)) mid)).
             msg_id m = mid \<longrightarrow> isAudioPlaying m = Some False"
    unfolding phase by (simp add: set_audio_flag_quiet)
  show ?thesis
    using first second by (simp add: phase)
qed

text \<open>A spoken send on a backend that answers every speech request without audio.\<close>

theorem empty_audio_skips_playback_witness:
  "(\<forall>request. generateContent env_silent request = Inr None) \<and>
   map_sum (\<lambda>e. e)
     (\<lambda>(s', sent, spoken). (map isAudioPlaying (messages s'), activeAudioSourceRef s', nodes s', length spoken))
     (handleSendMessage env_silent [] mounted ''one'' [] True ''u1'' 1 ''a1'' 2) =
     Inr ([None, Some False], None, [], 1)"
proof -
  have none: "\<forall>request. generateContent env_silent request = Inr None"
    by (simp add: env_silent_def)
  then have silent: "\<forall>request. generateContent env_silent request = Inr None \<or>
                          generateContent env_silent request = Inr (Some [])"
    by simp
  from empty_audio_skips_playback[OF silent, THEN conjunct1, of "[]" mounted "''one''" "[]" "''u1''" 1 "''a1''" 2]
  obtain s' sent spoken where
    "handleSendMessage env_silent [] mounted ''one'' [] True ''u1'' 1 ''a1'' 2 = Inr (s', sent, spoken)"
    "activeAudioSourceRef s' = None" by blast
  moreover have "map_sum (\<lambda>e. e)
     (\<lambda>(s', sent, spoken). (map isAudioPlaying (messages s'), activeAudioSourceRef s', nodes s', length spoken))
     (handleSendMessage env_silent [] mounted ''one'' [] True ''u1'' 1 ''a1'' 2) =
     Inr ([None, Some False], None, [], 1)"
    by (simp add: handleSendMessage_def handleSendMessage_call_def handleSendMessage_begin_def
        handleSendMessage_resume_def playResponseAudio_def playResponseAudio_begin_def
        playResponseAudio_call_def playResponseAudio_resume_def generateTextResponse_def
        generateSpeech_def getAiClient_def initAudioContext_def mounted_eq App_initial_def
        env_silent_def env_with_key_def set_audio_flag_def Let_def)
  ultimately show ?thesis
    using none by simp
qed

subsection \<open>Speech capture\<close>

lemma recognition_stop_safe: "recognition_stop r = Inr r"
  by (simp add: recognition_stop_def)

lemma recognition_abort_safe: "recognition_abort r = Inr r"
  by (simp add: recognition_abort_def)

lemma setupRecognition_unsupported:
  "\<not> webkitSpeechRecognition env \<Longrightarrow> recognitionRef s = None \<Longrightarrow>
   recognitionRef (setupRecognition env s) = None"
  by (simp add: setupRecognition_def)

lemma toggleRecording_no_recogniser:
  assumes "recognitionRef s = None"
  shows "\<exists>s'. toggleRecording env s = Inr s' \<and> recognitionRef s' = None \<and>
           isRecording s' = isRecording s \<and> messages s' = messages s \<and> isLoading s' = isLoading s"
proof (cases "activeAudioSourceRef s")
  case None
  with assms show ?thesis by (simp add: toggleRecording_def Let_def)
next
  case (Some h)
  with assms show ?thesis by (simp add: toggleRecording_def Let_def handle_stop_eq)
qed

lemma toggleRecording_stop:
  assumes "isRecording s"
  shows "\<exists>s'. toggleRecording env s = Inr s'"
proof (cases "recognitionRef s")
  case None
  with assms show ?thesis by (simp add: toggleRecording_def Let_def)
next
  case (Some r)
  with assms show ?thesis by (simp add: toggleRecording_def Let_def recognition_stop_def)
qed

lemma toggleLanguage_total: "\<exists>s'. toggleLanguage s = Inr s'"
proof (cases "recognitionRef s")
  case None
  then show ?thesis by (simp add: toggleLanguage_def)
next
  case (Some r)
  then show ?thesis by (simp add: toggleLanguage_def recognition_stop_def)
qed

text \<open>
  Claim C9. Where the platform has no speech recognition, \<^verbatim>\<open>setupRecognition\<close> leaves the
  component without a recogniser, and pressing the microphone button then raises nothing
  and starts nothing: no recogniser, the recording flag, the messages and the loading flag
  as before. \<^verbatim>\<open>stop()\<close> and \<^verbatim>\<open>abort()\<close> of a recogniser raise nothing in whatever state
  it is, started or not; and the handlers that call them, the microphone button while
  recording and the language switch, raise nothing in any state of the component
  (\<^verbatim>\<open>setupRecognition\<close>, which calls \<^verbatim>\<open>abort()\<close> inside a \<^verbatim>\<open>try\<close>, cannot raise at all).
\<close>

theorem speech_capture_safe:
  "(\<not> webkitSpeechRecognition env \<and> recognitionRef s = None \<longrightarrow>
       recognitionRef (setupRecognition env s) = None \<and>
       (\<exists>s'. toggleRecording env s = Inr s' \<and> recognitionRef s' = None \<and>
             isRecording s' = isRecording s \<and> messages s' = messages s \<and> isLoading s' = isLoading s)) \<and>
   recognition_stop r = Inr r \<and> recognition_abort r = Inr r \<and>
   (isRecording s2 \<longrightarrow> (\<exists>s'. toggleRecording env s2 = Inr s')) \<and>
   (\<exists>s'. toggleLanguage s3 = Inr s')"
  using setupRecognition_unsupported[of env s] toggleRecording_no_recogniser[of s env]
    recognition_stop_safe[of r] recognition_abort_safe[of r] toggleRecording_stop[of s2 env]
    toggleLanguage_total[of s3]
  by blast

text \<open>
  The theorem on a platform without speech recognition, right after the start, and at
  the microphone button pressed while a recogniser that was started is recording.
\<close>

theorem speech_capture_safe_witness:
  "\<not> webkitSpeechRecognition env_without_recognition \<and>
   recognitionRef App_initial = None \<and>
   recognitionRef (setupRecognition env_without_recognition App_initial) = None \<and>
   map_sum (\<lambda>e. e) (\<lambda>s'. (recognitionRef s', isRecording s', messages s'))
     (toggleRecording env_without_recognition App_initial) = Inr (None, False, []) \<and>
   isRecording (recognition_onstart mounted) \<and>
   map_sum (\<lambda>e. e) isRecording (toggleRecording env_with_key (recognition_onstart mounted)) = Inr True"
proof -
  have a: "\<not> webkitSpeechRecognition env_without_recognition" "recognitionRef App_initial = None"
    "isRecording (recognition_onstart mounted)"
    by (simp_all add: env_without_recognition_def App_initial_def recognition_onstart_def)
  have b: "map_sum (\<lambda>e. e) (\<lambda>s'. (recognitionRef s', isRecording s', messages s'))
     (toggleRecording env_without_recognition App_initial) = Inr (None, False, [])"
    by (simp add: toggleRecording_def initAudioContext_def App_initial_def Let_def)
  have c: "map_sum (\<lambda>e. e) isRecording (toggleRecording env_with_key (recognition_onstart mounted)) = Inr True"
    by (simp add: toggleRecording_def initAudioContext_def recognition_onstart_def mounted_eq
        App_initial_def recognition_stop_def Let_def)
  show ?thesis
    using speech_capture_safe [of env_without_recognition App_initial
        "\<lparr>continuous = False, interimResults = False, lang = ''ar-EG'', started = True,
          onresult_messages = []\<rparr>"
        "recognition_onstart mounted" App_initial] a b c
    by simp
qed

subsection \<open>The history sent with a request\<close>

lemma typed_round_kept:
  "\<exists>s'. typed_round s msg uuid1 now1 uuid2 now2 = Inr s' \<and> recognitionRef s' = recognitionRef s \<and>
         length (messages s') = length (messages s) + 2"
  using handleSendMessage_whole[of env_with_key "messages s" s msg "[]" False uuid1 now1 uuid2 now2]
  by (auto simp: typed_round_def onSendMessage_def)

lemma typed_rounds_kept:
  "\<exists>s'. typed_rounds n s = Inr s' \<and> recognitionRef s' = recognitionRef s \<and>
         length (messages s') = length (messages s) + 2 * n"
proof (induction n)
  case 0
  then show ?case by simp
next
  case (Suc n)
  then obtain s1 where s1: "typed_rounds n s = Inr s1" "recognitionRef s1 = recognitionRef s"
    "length (messages s1) = length (messages s) + 2 * n" by blast
  from typed_round_kept[of s1 "''hi''"] s1 show ?case
    by (fastforce simp: and_then_def)
qed

text \<open>
  Claim C3 on the two ways a send is made, after eight typed sends and their replies
  (sixteen messages). A typed send carries the last ten of them. A spoken send is made by
  the handler the recogniser holds, which is the one of the rendering that set the
  recogniser up, here the first: its \<^verbatim>\<open>messages\<close> are still the empty list of that
  rendering, and the request carries no history at all.
\<close>

theorem spoken_send_history:
  "map_sum (\<lambda>e. e) (\<lambda>s. length (messages s)) (typed_rounds 8 mounted) = Inr 16 \<and>
   map_sum (\<lambda>e. e) (\<lambda>(s, sent, spoken). map (\<lambda>request. length (history request)) sent)
     (and_then (typed_rounds 8 mounted)
        (\<lambda>s. onSendMessage env_with_key s ''typed'' [] ''u9'' 17 ''a9'' 18)) = Inr [10] \<and>
   map_sum (\<lambda>e. e) (\<lambda>(s, sent, spoken). map (\<lambda>request. length (history request)) sent)
     (and_then (typed_rounds 8 mounted)
        (\<lambda>s. recognition_onresult env_with_key s ''spoken'' ''u9'' 17 ''a9'' 18)) = Inr [0]"
proof -
  obtain s where s: "typed_rounds 8 mounted = Inr s" "recognitionRef s = recognitionRef mounted"
    "length (messages s) = length (messages mounted) + 2 * 8"
    using typed_rounds_kept[of 8 mounted] by blast
  have len: "length (messages s) = 16"
    using s(3) by (simp add: mounted_eq App_initial_def)
  obtain s1 sp1 where typed: "handleSendMessage env_with_key (messages s) s ''typed'' [] False ''u9'' 17 ''a9'' 18 =
      Inr (s1, chat_requests (generateTextResponse env_with_key (aiInstance s) ''typed'' [] (messages s)), sp1)"
    using handleSendMessage_whole[of env_with_key "messages s" s "''typed''" "[]" False "''u9''" 17 "''a9''" 18]
    by blast
  obtain s2 sp2 where spoken: "handleSendMessage env_with_key [] s ''spoken'' [] True ''u9'' 17 ''a9'' 18 =
      Inr (s2, chat_requests (generateTextResponse env_with_key (aiInstance s) ''spoken'' [] []), sp2)"
    using handleSendMessage_whole[of env_with_key "[]" s "''spoken''" "[]" True "''u9''" 17 "''a9''" 18]
    by blast
  have r: "recognitionRef s = Some \<lparr>continuous = False, interimResults = False, lang = ''ar-EG'',
      started = False, onresult_messages = []\<rparr>"
    using s(2) by (simp add: mounted_eq)
  show ?thesis
    using s(1) len typed spoken r
    by (simp add: and_then_def onSendMessage_def recognition_onresult_def env_with_key_reply
        slice_last_length)
qed

end
